theory Spec2Isabelle
  imports Main "HOL-Library.Finite_Map" "HOL-Library.Char_ord" "HOL-Library.List_Lexorder"
begin

section \<open>Go values shared by the adapters\<close>

text \<open>
  An \<^verbatim>\<open>interface{}\<close> value of the plugin SDK's attribute model. A type assertion
  such as \<^verbatim>\<open>v.(string)\<close> succeeds on exactly one constructor and panics on the others.
  \<^verbatim>\<open>TSet\<close> is a \<^verbatim>\<open>*schema.Set\<close> of strings (a finite set), \<^verbatim>\<open>TList\<close> a \<^verbatim>\<open>[]interface{}\<close>,
  \<^verbatim>\<open>TMap\<close> a \<^verbatim>\<open>map[string]interface{}\<close> and \<^verbatim>\<open>TStringMap\<close> a \<^verbatim>\<open>map[string]string\<close>.
\<close>

datatype tfvalue =
    TNil
  | TString string
  | TBool bool
  | TInt int
  | TSet "string fset"
  | TStringMap "string \<Rightarrow> string option"
  | TList "tfvalue list"
  | TMap "string \<Rightarrow> tfvalue option"

text \<open>A Go panic (failed type assertion); \<^verbatim>\<open>Inl\<close> carries it.\<close>

datatype panic = Panic

definition bindP :: "panic + 'a \<Rightarrow> ('a \<Rightarrow> panic + 'b) \<Rightarrow> panic + 'b" where
  "bindP r f = (case r of Inl p \<Rightarrow> Inl p | Inr v \<Rightarrow> f v)"

text \<open>\<^verbatim>\<open>m[k].(string)\<close>: a missing key yields the nil interface, on which the assertion panics.\<close>

definition assertString :: "tfvalue option \<Rightarrow> panic + string" where
  "assertString v = (case v of Some (TString s) \<Rightarrow> Inr s | _ \<Rightarrow> Inl Panic)"

text \<open>\<^verbatim>\<open>m[k].(*schema.Set)\<close>\<close>

definition assertSet :: "tfvalue option \<Rightarrow> panic + string fset" where
  "assertSet v = (case v of Some (TSet s) \<Rightarrow> Inr s | _ \<Rightarrow> Inl Panic)"

text \<open>\<^verbatim>\<open>l[0].(map[string]interface{})\<close>\<close>

definition assertMap :: "tfvalue \<Rightarrow> panic + (string \<Rightarrow> tfvalue option)" where
  "assertMap v = (case v of TMap m \<Rightarrow> Inr m | _ \<Rightarrow> Inl Panic)"

text \<open>
  A Go \<^verbatim>\<open>*string\<close> is a \<^typ>\<open>string option\<close> (\<^verbatim>\<open>nil\<close> is \<^term>\<open>None\<close>);
  \<^verbatim>\<open>aws.String\<close> takes the address of a copy, \<^verbatim>\<open>aws.StringValue\<close> reads through the
  pointer and gives the empty string on \<^verbatim>\<open>nil\<close>; \<^verbatim>\<open>aws.BoolValue\<close> gives false on
  \<^verbatim>\<open>nil\<close>.
\<close>

definition aws_String :: "string \<Rightarrow> string option" where
  "aws_String s = Some s"

definition aws_StringValue :: "string option \<Rightarrow> string" where
  "aws_StringValue p = (case p of None \<Rightarrow> [] | Some s \<Rightarrow> s)"

definition aws_BoolValue :: "bool option \<Rightarrow> bool" where
  "aws_BoolValue p = (case p of None \<Rightarrow> False | Some b \<Rightarrow> b)"

text \<open>
  Errors. An AWS API error carries a code and a message; \<^verbatim>\<open>NotFoundError\<close> is the
  error the finder functions return for a missing resource; anything else is opaque.
\<close>

datatype error =
    AWSError (Code: string) (Message: string)
  | NotFoundError string
  | OtherError string

fun Error_text :: "error \<Rightarrow> string" where
  "Error_text (AWSError c m) = c @ '': '' @ m"
| "Error_text (NotFoundError m) = m"
| "Error_text (OtherError m) = m"

text \<open>\<^verbatim>\<open>strings.Contains\<close>: some suffix of the text starts with the wanted substring.\<close>

fun strings_Contains :: "string \<Rightarrow> string \<Rightarrow> bool" where
  "strings_Contains [] sub = (sub = [])"
| "strings_Contains (c # cs) sub = (take (length sub) (c # cs) = sub \<or> strings_Contains cs sub)"

text \<open>
  \<^verbatim>\<open>tfawserr.ErrMessageContains(err, code, message)\<close> and
  \<^verbatim>\<open>tfawserr.ErrCodeEquals(err, codes...)\<close> of the AWS SDK base library: false on a
  \<^verbatim>\<open>nil\<close> error and on an error that is not an AWS API error.
\<close>

definition ErrMessageContains :: "error option \<Rightarrow> string \<Rightarrow> string \<Rightarrow> bool" where
  "ErrMessageContains err code message =
     (case err of
        Some (AWSError c m) \<Rightarrow> c = code \<and> strings_Contains m message
      | _ \<Rightarrow> False)"

definition ErrCodeEquals :: "error option \<Rightarrow> string list \<Rightarrow> bool" where
  "ErrCodeEquals err codes =
     (case err of
        Some (AWSError c m) \<Rightarrow> List.member codes c
      | _ \<Rightarrow> False)"

text \<open>
  Modelled from the spec: \<^verbatim>\<open>tfresource.NotFound\<close> (internal/tfresource) is not under
  src/; the finder's "not found" outcome is the one error the read treats as the resource
  having disappeared.
\<close>

definition NotFound :: "error option \<Rightarrow> bool" where
  "NotFound err = (case err of Some (NotFoundError m) \<Rightarrow> True | _ \<Rightarrow> False)"

subsection \<open>Diagnostics\<close>

datatype Severity = SevError | SevWarning

datatype Diagnostic = Diagnostic (Severity: Severity) (Summary: string)

type_synonym Diagnostics = "Diagnostic list"

text \<open>
  Modelled from the spec: \<^verbatim>\<open>sdkdiag.AppendErrorf\<close> (internal/errs/sdkdiag) is not under
  src/; errors are "wrapped with context (operation name, resource identifier) and surfaced
  to the caller as diagnostics". The summary is the formatted message, passed here already
  formatted.
\<close>

definition AppendErrorf :: "Diagnostics \<Rightarrow> string \<Rightarrow> Diagnostics" where
  "AppendErrorf diags summary = diags @ [Diagnostic SevError summary]"

subsection \<open>Resource data\<close>

text \<open>
  \<^verbatim>\<open>*schema.ResourceData\<close>: the id, the attribute store, whether the framework has
  marked the resource as new, and which attributes differ between prior state and plan.
\<close>

record ResourceData =
  rdId :: string
  rdAttrs :: "string \<Rightarrow> tfvalue option"
  rdIsNew :: bool
  rdChanged :: "string \<Rightarrow> bool"

definition SetId :: "ResourceData \<Rightarrow> string \<Rightarrow> ResourceData" where
  "SetId d v = d\<lparr>rdId := v\<rparr>"

text \<open>
  \<^verbatim>\<open>d.Get(k).(string)\<close> and \<^verbatim>\<open>d.Get(k).([]interface{})\<close>: an attribute that is unset
  (or stored as nil) reads as the zero value of its schema type.
\<close>

definition Get_string :: "ResourceData \<Rightarrow> string \<Rightarrow> string" where
  "Get_string d k = (case rdAttrs d k of Some (TString s) \<Rightarrow> s | _ \<Rightarrow> [])"

definition Get_list :: "ResourceData \<Rightarrow> string \<Rightarrow> tfvalue list" where
  "Get_list d k = (case rdAttrs d k of Some (TList l) \<Rightarrow> l | _ \<Rightarrow> [])"

text \<open>\<^verbatim>\<open>d.GetOk(k)\<close>: the value, and whether it differs from the zero value.\<close>

definition GetOk_string :: "ResourceData \<Rightarrow> string \<Rightarrow> string \<times> bool" where
  "GetOk_string d k = (Get_string d k, Get_string d k \<noteq> [])"

definition GetOk_list :: "ResourceData \<Rightarrow> string \<Rightarrow> tfvalue list \<times> bool" where
  "GetOk_list d k = (Get_list d k, Get_list d k \<noteq> [])"

text \<open>
  \<^verbatim>\<open>d.Set(k, v)\<close>. The framework rejects only a value that does not fit the attribute's
  declared type; every call site below passes a value of the declared type (or a nil
  pointer, stored as nil), so the call stores the value and returns no error. The callers
  keep their error branch.
\<close>

definition Set_attr :: "ResourceData \<Rightarrow> string \<Rightarrow> tfvalue \<Rightarrow> error option \<times> ResourceData" where
  "Set_attr d k v = (None, rdAttrs_update (\<lambda>attrs. attrs(k \<mapsto> v)) d)"

text \<open>A pointer handed to \<^verbatim>\<open>d.Set\<close> is dereferenced; a nil pointer stores nil.\<close>

definition ofStringPtr :: "string option \<Rightarrow> tfvalue" where
  "ofStringPtr p = (case p of None \<Rightarrow> TNil | Some s \<Rightarrow> TString s)"

definition ofBoolPtr :: "bool option \<Rightarrow> tfvalue" where
  "ofBoolPtr p = (case p of None \<Rightarrow> TNil | Some b \<Rightarrow> TBool b)"

definition ofIntPtr :: "int option \<Rightarrow> tfvalue" where
  "ofIntPtr p = (case p of None \<Rightarrow> TNil | Some i \<Rightarrow> TInt i)"


section \<open>SageMaker Workforce (internal/service/sagemaker/workforce.go)\<close>

subsection \<open>Request and response structures of the AWS SDK\<close>

text \<open>
  Pointer fields are options; a \<^verbatim>\<open>[]*string\<close> is a list of string pointers, the nil
  slice being the empty list.
\<close>

record CognitoConfig =
  cog_ClientId :: "string option"
  cog_UserPool :: "string option"

record OidcConfig =
  oidc_AuthorizationEndpoint :: "string option"
  oidc_ClientId :: "string option"
  oidc_ClientSecret :: "string option"
  oidc_Issuer :: "string option"
  oidc_JwksUri :: "string option"
  oidc_LogoutEndpoint :: "string option"
  oidc_TokenEndpoint :: "string option"
  oidc_UserInfoEndpoint :: "string option"

record OidcConfigForResponse =
  oidcr_AuthorizationEndpoint :: "string option"
  oidcr_ClientId :: "string option"
  oidcr_Issuer :: "string option"
  oidcr_JwksUri :: "string option"
  oidcr_LogoutEndpoint :: "string option"
  oidcr_TokenEndpoint :: "string option"
  oidcr_UserInfoEndpoint :: "string option"

record SourceIpConfig =
  sip_Cidrs :: "string option list"

record WorkforceVpcConfigRequest =
  vpcq_SecurityGroupIds :: "string option list"
  vpcq_Subnets :: "string option list"
  vpcq_VpcId :: "string option"

record WorkforceVpcConfigResponse =
  vpcr_SecurityGroupIds :: "string option list"
  vpcr_Subnets :: "string option list"
  vpcr_VpcEndpointId :: "string option"
  vpcr_VpcId :: "string option"

record Workforce =
  wf_WorkforceArn :: "string option"
  wf_SubDomain :: "string option"
  wf_WorkforceName :: "string option"
  wf_CognitoConfig :: "CognitoConfig option"
  wf_OidcConfig :: "OidcConfigForResponse option"
  wf_SourceIpConfig :: "SourceIpConfig option"
  wf_WorkforceVpcConfig :: "WorkforceVpcConfigResponse option"

record CreateWorkforceInput =
  cwi_WorkforceName :: "string option"
  cwi_CognitoConfig :: "CognitoConfig option"
  cwi_OidcConfig :: "OidcConfig option"
  cwi_SourceIpConfig :: "SourceIpConfig option"
  cwi_WorkforceVpcConfig :: "WorkforceVpcConfigRequest option"

record UpdateWorkforceInput =
  uwi_WorkforceName :: "string option"
  uwi_OidcConfig :: "OidcConfig option"
  uwi_SourceIpConfig :: "SourceIpConfig option"
  uwi_WorkforceVpcConfig :: "WorkforceVpcConfigRequest option"

subsection \<open>The string-set helpers\<close>

text \<open>
  \<^verbatim>\<open>flex.ExpandStringSet\<close> (a \<^verbatim>\<open>*schema.Set\<close> to a \<^verbatim>\<open>[]*string\<close>) and
  \<^verbatim>\<open>flex.FlattenStringSet\<close> (back) live in internal/flex, which is not under src/. The
  expand and flatten functions take them as a parameter.
\<close>

record flex =
  ExpandStringSet :: "string fset \<Rightarrow> string option list"
  FlattenStringSet :: "string option list \<Rightarrow> string fset"

text \<open>
  Modelled from the spec: the two helpers of internal/flex, as the "1:1 field copies" the
  spec describes: the members of the set, each behind a pointer, and back the strings the
  pointers hold. The list is in the order of the strings, the members having no order of
  their own.
\<close>

definition flexCopy :: flex where
  "flexCopy =
     \<lparr> ExpandStringSet = (\<lambda>s. map Some (sorted_list_of_fset s)),
       FlattenStringSet = (\<lambda>l. fset_of_list (List.map_filter (\<lambda>p. p) l)) \<rparr>"

subsection \<open>Expand and flatten\<close>

definition expandWorkforceSourceIPConfig :: "flex \<Rightarrow> tfvalue list \<Rightarrow> panic + SourceIpConfig option" where
  "expandWorkforceSourceIPConfig fx l =
     (if length l = 0 \<or> hd l = TNil then Inr None
      else
        bindP (assertMap (hd l)) (\<lambda>m.
        bindP (assertSet (m ''cidrs'')) (\<lambda>cidrs.
        Inr (Some \<lparr> sip_Cidrs = ExpandStringSet fx cidrs \<rparr>))))"

definition flattenWorkforceSourceIPConfig :: "flex \<Rightarrow> SourceIpConfig option \<Rightarrow> (string \<Rightarrow> tfvalue option) list" where
  "flattenWorkforceSourceIPConfig fx config =
     (case config of
        None \<Rightarrow> []
      | Some c \<Rightarrow> [ [''cidrs'' \<mapsto> TSet (FlattenStringSet fx (sip_Cidrs c))] ])"

definition expandWorkforceCognitoConfig :: "tfvalue list \<Rightarrow> panic + CognitoConfig option" where
  "expandWorkforceCognitoConfig l =
     (if length l = 0 \<or> hd l = TNil then Inr None
      else
        bindP (assertMap (hd l)) (\<lambda>m.
        bindP (assertString (m ''client_id'')) (\<lambda>client_id.
        bindP (assertString (m ''user_pool'')) (\<lambda>user_pool.
        Inr (Some \<lparr> cog_ClientId = aws_String client_id,
                     cog_UserPool = aws_String user_pool \<rparr>)))))"

definition flattenWorkforceCognitoConfig :: "CognitoConfig option \<Rightarrow> (string \<Rightarrow> tfvalue option) list" where
  "flattenWorkforceCognitoConfig config =
     (case config of
        None \<Rightarrow> []
      | Some c \<Rightarrow>
          [ [''client_id'' \<mapsto> TString (aws_StringValue (cog_ClientId c)),
             ''user_pool'' \<mapsto> TString (aws_StringValue (cog_UserPool c))] ])"

definition expandWorkforceOIDCConfig :: "tfvalue list \<Rightarrow> panic + OidcConfig option" where
  "expandWorkforceOIDCConfig l =
     (if length l = 0 \<or> hd l = TNil then Inr None
      else
        bindP (assertMap (hd l)) (\<lambda>m.
        bindP (assertString (m ''authorization_endpoint'')) (\<lambda>authorization_endpoint.
        bindP (assertString (m ''client_id'')) (\<lambda>client_id.
        bindP (assertString (m ''client_secret'')) (\<lambda>client_secret.
        bindP (assertString (m ''issuer'')) (\<lambda>issuer.
        bindP (assertString (m ''jwks_uri'')) (\<lambda>jwks_uri.
        bindP (assertString (m ''logout_endpoint'')) (\<lambda>logout_endpoint.
        bindP (assertString (m ''token_endpoint'')) (\<lambda>token_endpoint.
        bindP (assertString (m ''user_info_endpoint'')) (\<lambda>user_info_endpoint.
        Inr (Some \<lparr> oidc_AuthorizationEndpoint = aws_String authorization_endpoint,
                     oidc_ClientId = aws_String client_id,
                     oidc_ClientSecret = aws_String client_secret,
                     oidc_Issuer = aws_String issuer,
                     oidc_JwksUri = aws_String jwks_uri,
                     oidc_LogoutEndpoint = aws_String logout_endpoint,
                     oidc_TokenEndpoint = aws_String token_endpoint,
                     oidc_UserInfoEndpoint = aws_String user_info_endpoint \<rparr>)))))))))))"

definition flattenWorkforceOIDCConfig :: "OidcConfigForResponse option \<Rightarrow> string \<Rightarrow> (string \<Rightarrow> tfvalue option) list" where
  "flattenWorkforceOIDCConfig config clientSecret =
     (case config of
        None \<Rightarrow> []
      | Some c \<Rightarrow>
          [ [''authorization_endpoint'' \<mapsto> TString (aws_StringValue (oidcr_AuthorizationEndpoint c)),
             ''client_id'' \<mapsto> TString (aws_StringValue (oidcr_ClientId c)),
             ''client_secret'' \<mapsto> TString clientSecret,
             ''issuer'' \<mapsto> TString (aws_StringValue (oidcr_Issuer c)),
             ''jwks_uri'' \<mapsto> TString (aws_StringValue (oidcr_JwksUri c)),
             ''logout_endpoint'' \<mapsto> TString (aws_StringValue (oidcr_LogoutEndpoint c)),
             ''token_endpoint'' \<mapsto> TString (aws_StringValue (oidcr_TokenEndpoint c)),
             ''user_info_endpoint'' \<mapsto> TString (aws_StringValue (oidcr_UserInfoEndpoint c))] ])"

definition expandWorkforceVPCConfig :: "flex \<Rightarrow> tfvalue list \<Rightarrow> panic + WorkforceVpcConfigRequest option" where
  "expandWorkforceVPCConfig fx l =
     (if length l = 0 \<or> hd l = TNil
      then Inr (Some \<lparr> vpcq_SecurityGroupIds = [], vpcq_Subnets = [], vpcq_VpcId = None \<rparr>)
      else
        bindP (assertMap (hd l)) (\<lambda>m.
        bindP (assertSet (m ''security_group_ids'')) (\<lambda>security_group_ids.
        bindP (assertSet (m ''subnets'')) (\<lambda>subnets.
        bindP (assertString (m ''vpc_id'')) (\<lambda>vpc_id.
        Inr (Some \<lparr> vpcq_SecurityGroupIds = ExpandStringSet fx security_group_ids,
                     vpcq_Subnets = ExpandStringSet fx subnets,
                     vpcq_VpcId = aws_String vpc_id \<rparr>))))))"

definition flattenWorkforceVPCConfig :: "flex \<Rightarrow> WorkforceVpcConfigResponse option \<Rightarrow> (string \<Rightarrow> tfvalue option) list" where
  "flattenWorkforceVPCConfig fx config =
     (case config of
        None \<Rightarrow> []
      | Some c \<Rightarrow>
          [ [''security_group_ids'' \<mapsto> TSet (FlattenStringSet fx (vpcr_SecurityGroupIds c)),
             ''subnets'' \<mapsto> TSet (FlattenStringSet fx (vpcr_Subnets c)),
             ''vpc_endpoint_id'' \<mapsto> TString (aws_StringValue (vpcr_VpcEndpointId c)),
             ''vpc_id'' \<mapsto> TString (aws_StringValue (vpcr_VpcId c))] ])"

text \<open>
  Between an expand and the matching flatten stands the AWS service. For the Cognito and
  source-IP blocks the response carries the request's own structure. For the other two the
  response structure differs from the request's: the service echoes the fields the two
  share, withholds the OIDC client secret, and reports the VPC endpoint it has assigned.
\<close>

definition oidcResponseOf :: "OidcConfig \<Rightarrow> OidcConfigForResponse" where
  "oidcResponseOf c =
     \<lparr> oidcr_AuthorizationEndpoint = oidc_AuthorizationEndpoint c,
       oidcr_ClientId = oidc_ClientId c,
       oidcr_Issuer = oidc_Issuer c,
       oidcr_JwksUri = oidc_JwksUri c,
       oidcr_LogoutEndpoint = oidc_LogoutEndpoint c,
       oidcr_TokenEndpoint = oidc_TokenEndpoint c,
       oidcr_UserInfoEndpoint = oidc_UserInfoEndpoint c \<rparr>"

definition vpcResponseOf :: "string option \<Rightarrow> WorkforceVpcConfigRequest \<Rightarrow> WorkforceVpcConfigResponse" where
  "vpcResponseOf endpoint c =
     \<lparr> vpcr_SecurityGroupIds = vpcq_SecurityGroupIds c,
       vpcr_Subnets = vpcq_Subnets c,
       vpcr_VpcEndpointId = endpoint,
       vpcr_VpcId = vpcq_VpcId c \<rparr>"


subsection \<open>The resource schema\<close>

datatype ValueType = TypeBool | TypeInt | TypeString | TypeList | TypeMap | TypeSet

datatype validator =
    StringLenBetween nat nat
  | IsURLWithHTTPS
  | IsCIDR
  | StringMatch string string
  | All "validator list"

text \<open>
  \<^verbatim>\<open>schema.Schema\<close>, with the fields the resource uses, in this order: Type, Optional,
  Required, Computed, ForceNew, Sensitive, MaxItems, ExactlyOneOf, ValidateFunc, Elem. A
  field the Go literal leaves out has its zero value.
\<close>

datatype Schema =
  Schema (Type: ValueType) (Optional: bool) (Required: bool) (Computed: bool)
    (ForceNew: bool) (Sensitive: bool) (MaxItems: nat) (ExactlyOneOf: "string list")
    (ValidateFunc: "validator option") (Elem: Elem)
and Elem =
    NoElem
  | ElemSchema Schema
  | ElemResource "(string \<times> Schema) list"

definition httpsURL500 :: "validator option" where
  "httpsURL500 = Some (All [StringLenBetween 1 500, IsURLWithHTTPS])"

definition ResourceWorkforce_Schema :: "(string \<times> Schema) list" where
  "ResourceWorkforce_Schema =
   [ (''arn'',
        Schema TypeString False False True False False 0 [] None NoElem),
     (''cognito_config'',
        Schema TypeList True False False True False 1 [''oidc_config'', ''cognito_config''] None
          (ElemResource
            [ (''client_id'', Schema TypeString False True False False False 0 [] None NoElem),
              (''user_pool'', Schema TypeString False True False False False 0 [] None NoElem) ])),
     (''oidc_config'',
        Schema TypeList True False False False False 1 [''oidc_config'', ''cognito_config''] None
          (ElemResource
            [ (''authorization_endpoint'',
                 Schema TypeString False True False False False 0 [] httpsURL500 NoElem),
              (''client_id'',
                 Schema TypeString False True False False False 0 []
                   (Some (StringLenBetween 1 1024)) NoElem),
              (''client_secret'',
                 Schema TypeString False True False False True 0 []
                   (Some (StringLenBetween 1 1024)) NoElem),
              (''issuer'', Schema TypeString False True False False False 0 [] httpsURL500 NoElem),
              (''jwks_uri'', Schema TypeString False True False False False 0 [] httpsURL500 NoElem),
              (''logout_endpoint'',
                 Schema TypeString False True False False False 0 [] httpsURL500 NoElem),
              (''token_endpoint'',
                 Schema TypeString False True False False False 0 [] httpsURL500 NoElem),
              (''user_info_endpoint'',
                 Schema TypeString False True False False False 0 [] httpsURL500 NoElem) ])),
     (''source_ip_config'',
        Schema TypeList True False True False False 1 [] None
          (ElemResource
            [ (''cidrs'',
                 Schema TypeSet False True False False False 10 [] None
                   (ElemSchema
                     (Schema TypeString False False False False False 0 [] (Some IsCIDR) NoElem))) ])),
     (''subdomain'',
        Schema TypeString False False True False False 0 [] None NoElem),
     (''workforce_name'',
        Schema TypeString False True False True False 0 []
          (Some (All [StringLenBetween 1 63,
                      StringMatch (''^[a-zA-Z0-9]([a-zA-Z0-9'' @ [CHR 0x5C] @ ''-])*$'')
                        ''Valid characters are a-z, A-Z, 0-9, and - (hyphen).'']))
          NoElem),
     (''workforce_vpc_config'',
        Schema TypeList True False False False False 1 [] None
          (ElemResource
            [ (''security_group_ids'',
                 Schema TypeSet True False False False False 5 [] None
                   (ElemSchema
                     (Schema TypeString False False False False False 0 [] None NoElem))),
              (''subnets'',
                 Schema TypeSet True False False False False 16 [] None
                   (ElemSchema
                     (Schema TypeString False False False False False 0 [] None NoElem))),
              (''vpc_endpoint_id'',
                 Schema TypeString False False True False False 0 [] None NoElem),
              (''vpc_id'',
                 Schema TypeString True False False False False 0 [] None NoElem) ])) ]"

text \<open>
  The plugin SDK's rule for an attribute that carries \<^verbatim>\<open>ExactlyOneOf\<close>: of the
  attributes the group names, exactly one is set in the configuration. An attribute with
  no group passes.
\<close>

definition validateExactlyOneOf :: "Schema \<Rightarrow> (string \<Rightarrow> bool) \<Rightarrow> bool" where
  "validateExactlyOneOf sch isSet =
     (ExactlyOneOf sch = [] \<or> length (filter isSet (ExactlyOneOf sch)) = 1)"

definition schemaValidate :: "(string \<times> Schema) list \<Rightarrow> (string \<Rightarrow> bool) \<Rightarrow> bool" where
  "schemaValidate schemaMap isSet = list_all (\<lambda>(k, sch). validateExactlyOneOf sch isSet) schemaMap"

subsection \<open>Create, read, update, delete\<close>

text \<open>
  The SageMaker connection, and the finder and waiters of the package (find.go and wait.go,
  not under src/), as the outcomes they deliver.
\<close>

record SageMakerAPI =
  CreateWorkforce :: "CreateWorkforceInput \<Rightarrow> error option"
  UpdateWorkforce :: "UpdateWorkforceInput \<Rightarrow> error option"
  DeleteWorkforce :: "string option \<Rightarrow> error option"
  FindWorkforceByName :: "string \<Rightarrow> error + Workforce"
  WaitWorkforceActive :: "string \<Rightarrow> error option"
  WaitWorkforceDeleted :: "string \<Rightarrow> error option"

text \<open>The requests a callback has sent to the service, in order.\<close>

datatype request =
    CreateWorkforceRequest CreateWorkforceInput
  | UpdateWorkforceRequest UpdateWorkforceInput
  | DeleteWorkforceRequest "string option"

text \<open>\<^verbatim>\<open>d.Get("oidc_config.0.client_secret").(string)\<close>\<close>

definition Get_oidc_client_secret :: "ResourceData \<Rightarrow> string" where
  "Get_oidc_client_secret d =
     (case Get_list d ''oidc_config'' of
        TMap m # _ \<Rightarrow> (case m ''client_secret'' of Some (TString s) \<Rightarrow> s | _ \<Rightarrow> [])
      | _ \<Rightarrow> [])"

definition blocks :: "(string \<Rightarrow> tfvalue option) list \<Rightarrow> tfvalue" where
  "blocks ms = TList (map TMap ms)"

definition resourceWorkforceRead :: "SageMakerAPI \<Rightarrow> flex \<Rightarrow> ResourceData \<Rightarrow> Diagnostics \<times> ResourceData" where
  "resourceWorkforceRead conn fx d =
     (let diags = [];
          found = FindWorkforceByName conn (rdId d);
          err = (case found of Inl e \<Rightarrow> Some e | Inr w \<Rightarrow> None)
      in
      if \<not> rdIsNew d \<and> NotFound err then (diags, SetId d [])
      else
        case found of
          Inl e \<Rightarrow>
            (AppendErrorf diags
               (''reading SageMaker Workforce ('' @ rdId d @ ''): '' @ Error_text e), d)
        | Inr workforce \<Rightarrow>
            let d = snd (Set_attr d ''arn'' (ofStringPtr (wf_WorkforceArn workforce)));
                d = snd (Set_attr d ''subdomain'' (ofStringPtr (wf_SubDomain workforce)));
                d = snd (Set_attr d ''workforce_name'' (ofStringPtr (wf_WorkforceName workforce)))
            in
            case Set_attr d ''cognito_config''
                   (blocks (flattenWorkforceCognitoConfig (wf_CognitoConfig workforce))) of
              (Some e, d) \<Rightarrow>
                (AppendErrorf diags (''setting cognito_config : '' @ Error_text e), d)
            | (None, d) \<Rightarrow>
            case (if wf_OidcConfig workforce \<noteq> None
                  then Set_attr d ''oidc_config''
                         (blocks (flattenWorkforceOIDCConfig (wf_OidcConfig workforce)
                                    (Get_oidc_client_secret d)))
                  else (None, d)) of
              (Some e, d) \<Rightarrow>
                (AppendErrorf diags (''setting oidc_config: '' @ Error_text e), d)
            | (None, d) \<Rightarrow>
            case Set_attr d ''source_ip_config''
                   (blocks (flattenWorkforceSourceIPConfig fx (wf_SourceIpConfig workforce))) of
              (Some e, d) \<Rightarrow>
                (AppendErrorf diags (''setting source_ip_config: '' @ Error_text e), d)
            | (None, d) \<Rightarrow>
            case Set_attr d ''workforce_vpc_config''
                   (blocks (flattenWorkforceVPCConfig fx (wf_WorkforceVpcConfig workforce))) of
              (Some e, d) \<Rightarrow>
                (AppendErrorf diags (''setting workforce_vpc_config: '' @ Error_text e), d)
            | (None, d) \<Rightarrow> (diags, d))"

definition resourceWorkforceCreate ::
    "SageMakerAPI \<Rightarrow> flex \<Rightarrow> ResourceData \<Rightarrow> panic + (Diagnostics \<times> ResourceData \<times> request list)" where
  "resourceWorkforceCreate conn fx d =
     (let diags = [];
          name = Get_string d ''workforce_name''
      in
      bindP (case GetOk_list d ''cognito_config'' of
               (v, ok) \<Rightarrow> if ok then expandWorkforceCognitoConfig v else Inr None) (\<lambda>cognito.
      bindP (case GetOk_list d ''oidc_config'' of
               (v, ok) \<Rightarrow> if ok then expandWorkforceOIDCConfig v else Inr None) (\<lambda>oidc.
      bindP (case GetOk_list d ''source_ip_config'' of
               (v, ok) \<Rightarrow> if ok then expandWorkforceSourceIPConfig fx v else Inr None) (\<lambda>sourceIp.
      bindP (case GetOk_list d ''workforce_vpc_config'' of
               (v, ok) \<Rightarrow> if ok then expandWorkforceVPCConfig fx v else Inr None) (\<lambda>vpc.
      let input = \<lparr> cwi_WorkforceName = aws_String name,
                    cwi_CognitoConfig = cognito,
                    cwi_OidcConfig = oidc,
                    cwi_SourceIpConfig = sourceIp,
                    cwi_WorkforceVpcConfig = vpc \<rparr>;
          sent = [CreateWorkforceRequest input]
      in
      case CreateWorkforce conn input of
        Some e \<Rightarrow>
          Inr (AppendErrorf diags
                 (''creating SageMaker Workforce ('' @ name @ ''): '' @ Error_text e), d, sent)
      | None \<Rightarrow>
          let d = SetId d name in
          case WaitWorkforceActive conn name of
            Some e \<Rightarrow>
              Inr (AppendErrorf diags
                     (''waiting for SageMaker Workforce ('' @ rdId d @ '') create: '' @ Error_text e),
                   d, sent)
          | None \<Rightarrow>
              (case resourceWorkforceRead conn fx d of
                 (rdiags, d) \<Rightarrow> Inr (diags @ rdiags, d, sent)))))))"

definition resourceWorkforceUpdate ::
    "SageMakerAPI \<Rightarrow> flex \<Rightarrow> ResourceData \<Rightarrow> panic + (Diagnostics \<times> ResourceData \<times> request list)" where
  "resourceWorkforceUpdate conn fx d =
     (let diags = [] in
      bindP (if rdChanged d ''source_ip_config''
             then expandWorkforceSourceIPConfig fx (Get_list d ''source_ip_config'')
             else Inr None) (\<lambda>sourceIp.
      bindP (if rdChanged d ''oidc_config''
             then expandWorkforceOIDCConfig (Get_list d ''oidc_config'')
             else Inr None) (\<lambda>oidc.
      bindP (if rdChanged d ''workforce_vpc_config''
             then expandWorkforceVPCConfig fx (Get_list d ''workforce_vpc_config'')
             else Inr None) (\<lambda>vpc.
      let input = \<lparr> uwi_WorkforceName = aws_String (rdId d),
                    uwi_OidcConfig = oidc,
                    uwi_SourceIpConfig = sourceIp,
                    uwi_WorkforceVpcConfig = vpc \<rparr>;
          sent = [UpdateWorkforceRequest input]
      in
      case UpdateWorkforce conn input of
        Some e \<Rightarrow>
          Inr (AppendErrorf diags
                 (''updating SageMaker Workforce ('' @ rdId d @ ''): '' @ Error_text e), d, sent)
      | None \<Rightarrow>
          case WaitWorkforceActive conn (rdId d) of
            Some e \<Rightarrow>
              Inr (AppendErrorf diags
                     (''waiting for SageMaker Workforce ('' @ rdId d @ '') update: '' @ Error_text e),
                   d, sent)
          | None \<Rightarrow>
              (case resourceWorkforceRead conn fx d of
                 (rdiags, d) \<Rightarrow> Inr (diags @ rdiags, d, sent))))))"

definition resourceWorkforceDelete ::
    "SageMakerAPI \<Rightarrow> ResourceData \<Rightarrow> Diagnostics \<times> request list" where
  "resourceWorkforceDelete conn d =
     (let diags = [];
          sent = [DeleteWorkforceRequest (aws_String (rdId d))];
          err = DeleteWorkforce conn (aws_String (rdId d))
      in
      if ErrMessageContains err ''ValidationException'' ''No workforce'' then (diags, sent)
      else
        case err of
          Some e \<Rightarrow>
            (AppendErrorf diags
               (''deleting SageMaker Workforce ('' @ rdId d @ ''): '' @ Error_text e), sent)
        | None \<Rightarrow>
            (case WaitWorkforceDeleted conn (rdId d) of
               Some e \<Rightarrow>
                 (AppendErrorf diags
                    (''waiting for SageMaker Workforce ('' @ rdId d @ '') delete: '' @ Error_text e),
                  sent)
             | None \<Rightarrow> (diags, sent)))"


section \<open>S3 object data source (aws\_s3\_object)\<close>

subsection \<open>Regular expressions of the content-type allow-list\<close>

text \<open>
  The syntax tree Go's \<^verbatim>\<open>regexp\<close> package builds for the patterns used here:
  \<^verbatim>\<open>^\<close> and \<^verbatim>\<open>$\<close> match only at the two ends of the text (no multi-line flag),
  a literal matches its own characters, \<^verbatim>\<open>.\<close> matches any character but the newline
  (no dot-matches-newline flag), \<^verbatim>\<open>+\<close> is one or more repetitions. Strings are byte
  strings; a newline is the byte 10, which is no part of a longer UTF-8 sequence.
\<close>

datatype regexp =
    BeginText
  | EndText
  | Literal string
  | AnyCharNotNL
  | Plus regexp
  | Concat regexp regexp

text \<open>
  One or more rounds of a step that maps a start position to its end positions. A round
  that consumes nothing is not repeated, so \<open>n\<close> rounds suffice on a text of \<open>n\<close>
  characters.
\<close>

fun rounds :: "(nat \<Rightarrow> nat list) \<Rightarrow> nat \<Rightarrow> nat \<Rightarrow> nat list" where
  "rounds step 0 i = []"
| "rounds step (Suc n) i =
     (let js = step i in js @ concat (map (rounds step n) (filter (\<lambda>j. i < j) js)))"

text \<open>The end positions of the matches of a pattern that start at position \<open>i\<close> of the text.\<close>

fun matchAt :: "regexp \<Rightarrow> string \<Rightarrow> nat \<Rightarrow> nat list" where
  "matchAt BeginText s i = (if i = 0 then [i] else [])"
| "matchAt EndText s i = (if i = length s then [i] else [])"
| "matchAt (Literal l) s i = (if take (length l) (drop i s) = l then [i + length l] else [])"
| "matchAt AnyCharNotNL s i = (if i < length s \<and> s ! i \<noteq> CHR 0x0A then [i + 1] else [])"
| "matchAt (Plus r) s i = rounds (\<lambda>j. matchAt r s j) (Suc (length s - i)) i"
| "matchAt (Concat r1 r2) s i = concat (map (\<lambda>j. matchAt r2 s j) (matchAt r1 s i))"

text \<open>\<^verbatim>\<open>(*Regexp).MatchString\<close>: the text contains a match, starting anywhere.\<close>

definition MatchString :: "regexp \<Rightarrow> string \<Rightarrow> bool" where
  "MatchString r s = list_ex (\<lambda>i. matchAt r s i \<noteq> []) [0..<Suc (length s)]"

definition allowedContentTypes :: "regexp list" where
  "allowedContentTypes =
     [ Concat BeginText (Concat (Literal ''application/atom+xml'') EndText),
       Concat BeginText (Concat (Literal ''application/json'') EndText),
       Concat BeginText (Concat (Literal ''application/ld+json'') EndText),
       Concat BeginText (Concat (Literal ''application/x-csh'') EndText),
       Concat BeginText (Concat (Literal ''application/x-httpd-php'') EndText),
       Concat BeginText (Concat (Literal ''application/x-sh'') EndText),
       Concat BeginText (Concat (Literal ''application/xhtml+xml'') EndText),
       Concat BeginText (Concat (Literal ''application/xml'') EndText),
       Concat BeginText (Concat (Literal ''text/'') (Plus AnyCharNotNL)) ]"

definition isContentTypeAllowed :: "string option \<Rightarrow> bool" where
  "isContentTypeAllowed contentType =
     (case contentType of
        None \<Rightarrow> False
      | Some s \<Rightarrow> list_ex (\<lambda>r. MatchString r s) allowedContentTypes)"

text \<open>
  The allow-list as the specification words it: one of eight exact MIME types, or any
  string whose prefix is \<^verbatim>\<open>text/\<close> followed by at least one character.
\<close>

definition documentedContentType :: "string \<Rightarrow> bool" where
  "documentedContentType s =
     (List.member
        [''application/atom+xml'', ''application/json'', ''application/ld+json'',
         ''application/x-csh'', ''application/x-httpd-php'', ''application/x-sh'',
         ''application/xhtml+xml'', ''application/xml''] s
      \<or> (take 5 s = ''text/'' \<and> 5 < length s))"


subsection \<open>Tags (internal/service/s3/tags.go)\<close>

text \<open>
  \<^verbatim>\<open>tftags.KeyValueTags\<close> is a Go map from tag keys to tag values: a finite map. A Go
  map value may be \<^verbatim>\<open>nil\<close>; \<^verbatim>\<open>NilTags\<close> is that value.
\<close>

datatype KeyValueTags = NilTags | Tags "(string, string) fmap"

definition tagsOf :: "KeyValueTags \<Rightarrow> (string, string) fmap" where
  "tagsOf t = (case t of NilTags \<Rightarrow> fmempty | Tags m \<Rightarrow> m)"

text \<open>\<^verbatim>\<open>len(tags)\<close>; the length of a nil map is zero.\<close>

definition len :: "KeyValueTags \<Rightarrow> nat" where
  "len t = fcard (fmdom (tagsOf t))"

text \<open>
  Modelled from the spec: \<^verbatim>\<open>tftags.New\<close>, \<^verbatim>\<open>Ignore\<close> and \<^verbatim>\<open>Merge\<close> (internal/tags)
  and the conversion \<^verbatim>\<open>KeyValueTags\<close> of the service's tag list (generated code of the
  package) are not under src/. A tag set is "a mapping of string keys to string values";
  "an empty or absent tag set ... flattens to an empty mapping, never null", so
  \<^verbatim>\<open>New\<close> of nothing is the empty map and not the nil one; the helpers "merge" and
  "diff" tag sets: \<^verbatim>\<open>Ignore\<close> drops the keys of its argument, \<^verbatim>\<open>Merge\<close> adds the
  argument's tags over the receiver's.
\<close>

definition tftags_New :: "(string, string) fmap option \<Rightarrow> KeyValueTags" where
  "tftags_New i = (case i of None \<Rightarrow> Tags fmempty | Some m \<Rightarrow> Tags m)"

definition Ignore :: "KeyValueTags \<Rightarrow> KeyValueTags \<Rightarrow> KeyValueTags" where
  "Ignore tags ignoreTags = Tags (fmdrop_fset (fmdom (tagsOf ignoreTags)) (tagsOf tags))"

definition Merge :: "KeyValueTags \<Rightarrow> KeyValueTags \<Rightarrow> KeyValueTags" where
  "Merge tags mergeTags = Tags (tagsOf tags ++\<^sub>f tagsOf mergeTags)"

definition KeyValueTags_of :: "(string \<times> string) list \<Rightarrow> KeyValueTags" where
  "KeyValueTags_of tagSet = Tags (fold (\<lambda>(k, v) m. fmupd k v m) tagSet fmempty)"

text \<open>
  The error codes \<^verbatim>\<open>errCodeNoSuchTagSet\<close> and \<^verbatim>\<open>errCodeNoSuchTagSetError\<close> are
  constants of the package declared outside src/; the comment in \<^verbatim>\<open>BucketListTags\<close>
  names their values. \<^verbatim>\<open>ErrCodeNoSuchKey\<close> is the AWS SDK's.
\<close>

definition errCodeNoSuchTagSet :: string where
  "errCodeNoSuchTagSet = ''NoSuchTagSet''"

definition errCodeNoSuchTagSetError :: string where
  "errCodeNoSuchTagSetError = ''NoSuchTagSetError''"

definition ErrCodeNoSuchKey :: string where
  "ErrCodeNoSuchKey = ''NoSuchKey''"

text \<open>
  Modelled from the spec: \<^verbatim>\<open>tfresource.RetryWhenAWSErrCodeEquals\<close> and
  \<^verbatim>\<open>tfresource.RetryWhenIsA\<close> (internal/tfresource) are not under src/: a "blocking
  poll-until-condition ... parameterized by a timeout". The call is repeated while its
  error is one to retry on and the timeout has not elapsed; \<open>n\<close> is the number of further
  attempts the timeout leaves room for, \<open>k\<close> the number of the attempt. The last attempt's
  outcome is returned as it is.
\<close>

fun RetryWhen :: "nat \<Rightarrow> (error \<Rightarrow> bool) \<Rightarrow> (nat \<Rightarrow> error + 'a) \<Rightarrow> nat \<Rightarrow> error + 'a" where
  "RetryWhen 0 retryable f k = f k"
| "RetryWhen (Suc n) retryable f k =
     (case f k of
        Inl e \<Rightarrow> if retryable e then RetryWhen n retryable f (Suc k) else Inl e
      | Inr v \<Rightarrow> Inr v)"

text \<open>
  The S3 connection (AWS SDK v1) and client (v2). \<^verbatim>\<open>GetObjectTagging\<close> is called
  under a retry, so its outcome may depend on the number of the attempt. The tagging
  requests carry the tag map that \<^verbatim>\<open>Tags\<close> (generated code, not under src/) turns into
  the service's list form.
\<close>

record HeadObjectInput =
  hoi_Bucket :: "string option"
  hoi_Key :: "string option"
  hoi_Range :: "string option"
  hoi_VersionId :: "string option"

type_synonym time = int

record HeadObjectOutput =
  ho_BucketKeyEnabled :: "bool option"
  ho_CacheControl :: "string option"
  ho_ContentDisposition :: "string option"
  ho_ContentEncoding :: "string option"
  ho_ContentLanguage :: "string option"
  ho_ContentLength :: "int option"
  ho_ContentType :: "string option"
  ho_DeleteMarker :: "bool option"
  ho_ETag :: "string option"
  ho_Expiration :: "string option"
  ho_Expires :: "string option"
  ho_LastModified :: "time option"
  ho_Metadata :: "string \<Rightarrow> string option option"
  ho_ObjectLockLegalHoldStatus :: "string option"
  ho_ObjectLockMode :: "string option"
  ho_ObjectLockRetainUntilDate :: "time option"
  ho_ServerSideEncryption :: "string option"
  ho_SSEKMSKeyId :: "string option"
  ho_StorageClass :: "string option"
  ho_VersionId :: "string option"
  ho_WebsiteRedirectLocation :: "string option"

record GetObjectInput =
  goi_Bucket :: "string option"
  goi_Key :: "string option"
  goi_Range :: "string option"
  goi_VersionId :: "string option"

text \<open>The body of the response is a stream; reading it to its end gives the content or fails.\<close>

record GetObjectOutput =
  go_Body :: "error + string"

record S3API =
  HeadObject :: "HeadObjectInput \<Rightarrow> error + HeadObjectOutput"
  GetObject :: "GetObjectInput \<Rightarrow> error + GetObjectOutput"
  GetObjectTagging :: "nat \<Rightarrow> string \<Rightarrow> string \<Rightarrow> error + (string \<times> string) list"
  GetBucketTagging :: "string \<Rightarrow> error + (string \<times> string) list"
  PutBucketTagging :: "string \<Rightarrow> KeyValueTags \<Rightarrow> error option"
  DeleteBucketTagging :: "string \<Rightarrow> error option"
  PutObjectTagging :: "string \<Rightarrow> string \<Rightarrow> KeyValueTags \<Rightarrow> error option"
  DeleteObjectTagging :: "string \<Rightarrow> string \<Rightarrow> error option"

record S3Client =
  GetObjectTaggingV2 :: "nat \<Rightarrow> string \<Rightarrow> string \<Rightarrow> error + (string \<times> string) list"

definition errOf :: "error + 'a \<Rightarrow> error option" where
  "errOf r = (case r of Inl e \<Rightarrow> Some e | Inr v \<Rightarrow> None)"

definition BucketListTags :: "S3API \<Rightarrow> string \<Rightarrow> KeyValueTags \<times> error option" where
  "BucketListTags conn identifier =
     (let output = GetBucketTagging conn identifier;
          err = errOf output
      in
      if ErrCodeEquals err [errCodeNoSuchTagSet, errCodeNoSuchTagSetError]
      then (tftags_New None, None)
      else
        case output of
          Inl e \<Rightarrow> (tftags_New None, Some e)
        | Inr tagSet \<Rightarrow> (KeyValueTags_of tagSet, None))"

text \<open>
  The retried read of the object's tags: \<^verbatim>\<open>GetObjectTagging\<close>, repeated while the
  object is reported missing (error \<^verbatim>\<open>NoSuchKey\<close>) and the minute has not elapsed.
\<close>

definition retriedGetObjectTaggingV2 ::
    "S3Client \<Rightarrow> nat \<Rightarrow> string \<Rightarrow> string \<Rightarrow> error + (string \<times> string) list" where
  "retriedGetObjectTaggingV2 conn attempts bucket key =
     RetryWhen attempts (\<lambda>e. case e of AWSError c m \<Rightarrow> c = ErrCodeNoSuchKey | _ \<Rightarrow> False)
       (\<lambda>k. GetObjectTaggingV2 conn k bucket key) 0"

definition retriedGetObjectTagging ::
    "S3API \<Rightarrow> nat \<Rightarrow> string \<Rightarrow> string \<Rightarrow> error + (string \<times> string) list" where
  "retriedGetObjectTagging conn attempts bucket key =
     RetryWhen attempts (\<lambda>e. ErrCodeEquals (Some e) [ErrCodeNoSuchKey])
       (\<lambda>k. GetObjectTagging conn k bucket key) 0"


definition ObjectListTagsV1 :: "S3API \<Rightarrow> nat \<Rightarrow> string \<Rightarrow> string \<Rightarrow> KeyValueTags \<times> error option" where
  "ObjectListTagsV1 conn attempts bucket key =
     (let outputRaw = retriedGetObjectTagging conn attempts bucket key;
          err = errOf outputRaw
      in
      if ErrCodeEquals err [errCodeNoSuchTagSet, errCodeNoSuchTagSetError]
      then (tftags_New None, None)
      else
        case outputRaw of
          Inl e \<Rightarrow> (tftags_New None, Some e)
        | Inr tagSet \<Rightarrow> (KeyValueTags_of tagSet, None))"

text \<open>The mutating requests an update sends, in order.\<close>

datatype tagging_call =
    PutBucketTaggingCall string KeyValueTags
  | DeleteBucketTaggingCall string
  | PutObjectTaggingCall string string KeyValueTags
  | DeleteObjectTaggingCall string string

text \<open>\<^verbatim>\<open>fmt.Errorf("...: %w", err)\<close> wraps the error under a prefix.\<close>

definition wrapError :: "string \<Rightarrow> error \<Rightarrow> error" where
  "wrapError prefix e = OtherError (prefix @ Error_text e)"

definition BucketUpdateTags ::
    "S3API \<Rightarrow> string \<Rightarrow> (string, string) fmap option \<Rightarrow> (string, string) fmap option
       \<Rightarrow> error option \<times> tagging_call list" where
  "BucketUpdateTags conn identifier oldTagsMap newTagsMap =
     (let oldTags = tftags_New oldTagsMap;
          newTags = tftags_New newTagsMap
      in
      case BucketListTags conn identifier of
        (allTags, Some e) \<Rightarrow>
          (Some (wrapError (''listing resource tags ('' @ identifier @ ''): '') e), [])
      | (allTags, None) \<Rightarrow>
          let ignoredTags = Ignore (Ignore allTags oldTags) newTags in
          if len newTags + len ignoredTags > 0 then
            (case PutBucketTagging conn identifier (Merge newTags ignoredTags) of
               Some e \<Rightarrow>
                 (Some (wrapError (''setting resource tags ('' @ identifier @ ''): '') e),
                  [PutBucketTaggingCall identifier (Merge newTags ignoredTags)])
             | None \<Rightarrow> (None, [PutBucketTaggingCall identifier (Merge newTags ignoredTags)]))
          else if len oldTags > 0 \<and> len ignoredTags = 0 then
            (case DeleteBucketTagging conn identifier of
               Some e \<Rightarrow>
                 (Some (wrapError (''deleting resource tags ('' @ identifier @ ''): '') e),
                  [DeleteBucketTaggingCall identifier])
             | None \<Rightarrow> (None, [DeleteBucketTaggingCall identifier]))
          else (None, []))"

definition ObjectUpdateTags ::
    "S3API \<Rightarrow> nat \<Rightarrow> string \<Rightarrow> string \<Rightarrow> (string, string) fmap option
       \<Rightarrow> (string, string) fmap option \<Rightarrow> error option \<times> tagging_call list" where
  "ObjectUpdateTags conn attempts bucket key oldTagsMap newTagsMap =
     (let oldTags = tftags_New oldTagsMap;
          newTags = tftags_New newTagsMap
      in
      case ObjectListTagsV1 conn attempts bucket key of
        (allTags, Some e) \<Rightarrow>
          (Some (wrapError (''listing resource tags ('' @ bucket @ ''/'' @ key @ ''): '') e), [])
      | (allTags, None) \<Rightarrow>
          let ignoredTags = Ignore (Ignore allTags oldTags) newTags in
          if len newTags + len ignoredTags > 0 then
            (case PutObjectTagging conn bucket key (Merge newTags ignoredTags) of
               Some e \<Rightarrow>
                 (Some (wrapError (''setting resource tags ('' @ bucket @ ''/'' @ key @ ''): '') e),
                  [PutObjectTaggingCall bucket key (Merge newTags ignoredTags)])
             | None \<Rightarrow> (None, [PutObjectTaggingCall bucket key (Merge newTags ignoredTags)]))
          else if len oldTags > 0 \<and> len ignoredTags = 0 then
            (case DeleteObjectTagging conn bucket key of
               Some e \<Rightarrow>
                 (Some (wrapError (''deleting resource tags ('' @ bucket @ ''/'' @ key @ ''): '') e),
                  [DeleteObjectTaggingCall bucket key])
             | None \<Rightarrow> (None, [DeleteObjectTaggingCall bucket key]))
          else (None, []))"


subsection \<open>Reading the object\<close>

text \<open>
  What the read takes from outside the file: the time formats of Go's \<^verbatim>\<open>time\<close> package
  (\<^verbatim>\<open>Format(time.RFC1123)\<close>), the \<^verbatim>\<open>%q\<close> quoting of \<^verbatim>\<open>fmt\<close>, and helpers of
  the repository that are not under src/: \<^verbatim>\<open>flattenObjectDate\<close>,
  \<^verbatim>\<open>flex.PointersMapToStringList\<close>, and the chain
  \<^verbatim>\<open>IgnoreAWS().IgnoreConfig(ignoreTagsConfig).Map()\<close> on the tags.
\<close>

record S3Helpers =
  Format_RFC1123 :: "time \<Rightarrow> string"
  Sprintf_q :: "string \<Rightarrow> string"
  flattenObjectDate :: "time option \<Rightarrow> string"
  PointersMapToStringList :: "(string \<Rightarrow> string option option) \<Rightarrow> (string \<Rightarrow> string option)"
  tagsToMap :: "KeyValueTags \<Rightarrow> (string \<Rightarrow> string option)"

text \<open>\<^verbatim>\<open>strings.Trim(s, cutset)\<close>: the characters of the cutset removed from both ends.\<close>

definition strings_Trim :: "string \<Rightarrow> string \<Rightarrow> string" where
  "strings_Trim s cutset =
     rev (dropWhile (\<lambda>c. c \<in> set cutset) (rev (dropWhile (\<lambda>c. c \<in> set cutset) s)))"

definition StorageClassStandard :: string where
  "StorageClassStandard = ''STANDARD''"

text \<open>
  The block of the read that fetches the body (the \<^verbatim>\<open>if isContentTypeAllowed\<close>
  statement): the diagnostics of an early return or the resource data to go on with, and
  the \<^verbatim>\<open>GetObject\<close> requests sent.
\<close>

definition readBody ::
    "S3API \<Rightarrow> ResourceData \<Rightarrow> Diagnostics \<Rightarrow> string \<Rightarrow> string \<Rightarrow> string \<Rightarrow> HeadObjectOutput
       \<Rightarrow> (Diagnostics + ResourceData) \<times> GetObjectInput list" where
  "readBody conn d diags bucket key uniqueId out =
     (if isContentTypeAllowed (ho_ContentType out) then
        let input = \<lparr> goi_Bucket = aws_String bucket, goi_Key = aws_String key,
                      goi_Range = None, goi_VersionId = None \<rparr>;
            input = (case GetOk_string d ''range'' of
                       (v, ok) \<Rightarrow> if ok then input\<lparr>goi_Range := aws_String v\<rparr> else input);
            input = (if ho_VersionId out \<noteq> None
                     then input\<lparr>goi_VersionId := ho_VersionId out\<rparr> else input)
        in
        case GetObject conn input of
          Inl e \<Rightarrow>
            (Inl (AppendErrorf diags (''Failed getting S3 object: '' @ Error_text e)), [input])
        | Inr gout \<Rightarrow>
            (case go_Body gout of
               Inl e \<Rightarrow>
                 (Inl (AppendErrorf diags
                         (''Failed reading content of S3 object ('' @ uniqueId @ ''): ''
                            @ Error_text e)),
                  [input])
             | Inr content \<Rightarrow> (Inr (snd (Set_attr d ''body'' (TString content))), [input]))
      else (Inr d, []))"

text \<open>The attributes the read copies from the \<^verbatim>\<open>HeadObject\<close> response (its \<^verbatim>\<open>d.Set\<close> calls, in order).\<close>

definition setObjectAttributes :: "S3Helpers \<Rightarrow> ResourceData \<Rightarrow> HeadObjectOutput \<Rightarrow> ResourceData" where
  "setObjectAttributes hp d out =
     (let d = snd (Set_attr d ''bucket_key_enabled'' (ofBoolPtr (ho_BucketKeyEnabled out)));
          d = snd (Set_attr d ''cache_control'' (ofStringPtr (ho_CacheControl out)));
          d = snd (Set_attr d ''content_disposition'' (ofStringPtr (ho_ContentDisposition out)));
          d = snd (Set_attr d ''content_encoding'' (ofStringPtr (ho_ContentEncoding out)));
          d = snd (Set_attr d ''content_language'' (ofStringPtr (ho_ContentLanguage out)));
          d = snd (Set_attr d ''content_length'' (ofIntPtr (ho_ContentLength out)));
          d = snd (Set_attr d ''content_type'' (ofStringPtr (ho_ContentType out)));
          d = snd (Set_attr d ''etag''
                     (TString (strings_Trim (aws_StringValue (ho_ETag out)) [CHR 0x22])));
          d = snd (Set_attr d ''expiration'' (ofStringPtr (ho_Expiration out)));
          d = snd (Set_attr d ''expires'' (ofStringPtr (ho_Expires out)));
          d = (case ho_LastModified out of
                 Some t \<Rightarrow> snd (Set_attr d ''last_modified'' (TString (Format_RFC1123 hp t)))
               | None \<Rightarrow> snd (Set_attr d ''last_modified'' (TString [])));
          d = snd (Set_attr d ''metadata''
                     (TStringMap (PointersMapToStringList hp (ho_Metadata out))));
          d = snd (Set_attr d ''object_lock_legal_hold_status''
                     (ofStringPtr (ho_ObjectLockLegalHoldStatus out)));
          d = snd (Set_attr d ''object_lock_mode'' (ofStringPtr (ho_ObjectLockMode out)));
          d = snd (Set_attr d ''object_lock_retain_until_date''
                     (TString (flattenObjectDate hp (ho_ObjectLockRetainUntilDate out))));
          d = snd (Set_attr d ''server_side_encryption''
                     (ofStringPtr (ho_ServerSideEncryption out)));
          d = snd (Set_attr d ''sse_kms_key_id'' (ofStringPtr (ho_SSEKMSKeyId out)));
          d = snd (Set_attr d ''version_id'' (ofStringPtr (ho_VersionId out)));
          d = snd (Set_attr d ''website_redirect_location''
                     (ofStringPtr (ho_WebsiteRedirectLocation out)));
          d = (if ho_StorageClass out = None
               then snd (Set_attr d ''storage_class'' (TString StorageClassStandard))
               else snd (Set_attr d ''storage_class'' (ofStringPtr (ho_StorageClass out))))
      in d)"

text \<open>The \<^verbatim>\<open>HeadObjectInput\<close> the read builds from the configuration (its first lines).\<close>

definition headObjectInput :: "ResourceData \<Rightarrow> HeadObjectInput" where
  "headObjectInput d =
     (let bucket = Get_string d ''bucket'';
          key = Get_string d ''key'';
          input = \<lparr> hoi_Bucket = aws_String bucket, hoi_Key = aws_String key,
                    hoi_Range = None, hoi_VersionId = None \<rparr>;
          input = (case GetOk_string d ''range'' of
                     (v, ok) \<Rightarrow> if ok then input\<lparr>hoi_Range := aws_String v\<rparr> else input);
          input = (case GetOk_string d ''version_id'' of
                     (v, ok) \<Rightarrow> if ok then input\<lparr>hoi_VersionId := aws_String v\<rparr> else input)
      in input)"

definition dataSourceObjectRead ::
    "S3API \<Rightarrow> S3Helpers \<Rightarrow> nat \<Rightarrow> ResourceData
       \<Rightarrow> Diagnostics \<times> ResourceData \<times> GetObjectInput list" where
  "dataSourceObjectRead conn hp attempts d =
     (let diags = [];
          bucket = Get_string d ''bucket'';
          key = Get_string d ''key'';
          input = headObjectInput d;
          versionText = (case GetOk_string d ''version_id'' of
                           (v, ok) \<Rightarrow> if ok then '' of version '' @ Sprintf_q hp v else []);
          uniqueId = (case GetOk_string d ''version_id'' of
                        (v, ok) \<Rightarrow> if ok then bucket @ ''/'' @ key @ ''@'' @ v
                                  else bucket @ ''/'' @ key)
      in
      case HeadObject conn input of
        Inl e \<Rightarrow>
          (AppendErrorf diags
             (''getting S3 Bucket ('' @ bucket @ '') Object ('' @ key @ ''): '' @ Error_text e),
           d, [])
      | Inr out \<Rightarrow>
          if aws_BoolValue (ho_DeleteMarker out) then
            (AppendErrorf diags
               (''Requested S3 object '' @ Sprintf_q hp (bucket @ key) @ versionText
                  @ '' has been deleted''),
             d, [])
          else
            let d = SetId d uniqueId;
                d = setObjectAttributes hp d out
            in
            case readBody conn d diags bucket key uniqueId out of
              (Inl bdiags, sent) \<Rightarrow> (bdiags, d, sent)
            | (Inr d, sent) \<Rightarrow>
                (case ObjectListTagsV1 conn attempts bucket key of
                   (tags, Some e) \<Rightarrow>
                     (AppendErrorf diags
                        (''listing tags for S3 Bucket ('' @ bucket @ '') Object ('' @ key @ ''): ''
                           @ Error_text e),
                      d, sent)
                 | (tags, None) \<Rightarrow>
                     (case Set_attr d ''tags'' (TStringMap (tagsToMap hp tags)) of
                        (Some e, d) \<Rightarrow>
                          (AppendErrorf diags (''setting tags: '' @ Error_text e), d, sent)
                      | (None, d) \<Rightarrow> (diags, d, sent))))"


section \<open>Sample inputs\<close>

text \<open>Concrete connections and resource data on which the theorems below are exercised.\<close>

definition sampleWorkforce :: Workforce where
  "sampleWorkforce =
     \<lparr> wf_WorkforceArn = Some ''arn:aws:sagemaker:eu-west-1:1:workforce/wf'',
       wf_SubDomain = Some ''wf.labeling.eu-west-1.sagemaker.aws'',
       wf_WorkforceName = Some ''wf'',
       wf_CognitoConfig = Some \<lparr> cog_ClientId = Some ''client'', cog_UserPool = Some ''pool'' \<rparr>,
       wf_OidcConfig = None,
       wf_SourceIpConfig = None,
       wf_WorkforceVpcConfig = None \<rparr>"

definition sampleSageMaker :: SageMakerAPI where
  "sampleSageMaker =
     \<lparr> CreateWorkforce = (\<lambda>input. None),
       UpdateWorkforce = (\<lambda>input. None),
       DeleteWorkforce = (\<lambda>name. Some (AWSError ''ValidationException'' ''No workforce found'')),
       FindWorkforceByName = (\<lambda>name. Inr sampleWorkforce),
       WaitWorkforceActive = (\<lambda>name. None),
       WaitWorkforceDeleted = (\<lambda>name. None) \<rparr>"

definition sampleWorkforceData :: ResourceData where
  "sampleWorkforceData =
     \<lparr> rdId = ''wf'',
       rdAttrs = [''workforce_name'' \<mapsto> TString ''wf'',
                  ''cognito_config'' \<mapsto>
                     TList [TMap [''client_id'' \<mapsto> TString ''client'',
                                  ''user_pool'' \<mapsto> TString ''pool'']]],
       rdIsNew = True,
       rdChanged = (\<lambda>k. k = ''workforce_vpc_config'' \<or> k = ''source_ip_config'') \<rparr>"

text \<open>The same resource before its creation: no identifier yet, marked new.\<close>

definition sampleNewWorkforceData :: ResourceData where
  "sampleNewWorkforceData = sampleWorkforceData\<lparr>rdId := [], rdIsNew := True\<rparr>"

text \<open>A resource that is not marked new and whose workforce the finder does not find.\<close>

definition sampleOldWorkforceData :: ResourceData where
  "sampleOldWorkforceData = sampleWorkforceData\<lparr>rdId := [], rdIsNew := False\<rparr>"

definition sampleSageMakerGone :: SageMakerAPI where
  "sampleSageMakerGone =
     sampleSageMaker\<lparr>FindWorkforceByName := (\<lambda>name. Inl (NotFoundError ''no workforce''))\<rparr>"

text \<open>Configurations that break the exactly-one-of rule: both blocks set, and neither.\<close>

definition sampleOidcBlock :: "string \<Rightarrow> tfvalue option" where
  "sampleOidcBlock =
     [''authorization_endpoint'' \<mapsto> TString ''https://idp/auth'',
      ''client_id'' \<mapsto> TString ''client'',
      ''client_secret'' \<mapsto> TString ''s3cret'',
      ''issuer'' \<mapsto> TString ''https://idp'',
      ''jwks_uri'' \<mapsto> TString ''https://idp/jwks'',
      ''logout_endpoint'' \<mapsto> TString ''https://idp/logout'',
      ''token_endpoint'' \<mapsto> TString ''https://idp/token'',
      ''user_info_endpoint'' \<mapsto> TString ''https://idp/user'']"

definition sampleBothAuthData :: ResourceData where
  "sampleBothAuthData =
     \<lparr> rdId = ''wf'',
       rdAttrs = [''workforce_name'' \<mapsto> TString ''wf'',
                  ''cognito_config'' \<mapsto>
                     TList [TMap [''client_id'' \<mapsto> TString ''client'',
                                  ''user_pool'' \<mapsto> TString ''pool'']],
                  ''oidc_config'' \<mapsto> TList [TMap sampleOidcBlock]],
       rdIsNew = True,
       rdChanged = (\<lambda>k. k = ''oidc_config'') \<rparr>"

definition sampleNoAuthData :: ResourceData where
  "sampleNoAuthData =
     \<lparr> rdId = ''wf'',
       rdAttrs = [''workforce_name'' \<mapsto> TString ''wf''],
       rdIsNew = True,
       rdChanged = (\<lambda>k. k = ''oidc_config'') \<rparr>"

definition sampleHead :: HeadObjectOutput where
  "sampleHead =
     \<lparr> ho_BucketKeyEnabled = None, ho_CacheControl = None, ho_ContentDisposition = None,
       ho_ContentEncoding = None, ho_ContentLanguage = None, ho_ContentLength = Some 3,
       ho_ContentType = Some ''image/png'', ho_DeleteMarker = None, ho_ETag = None,
       ho_Expiration = None, ho_Expires = None, ho_LastModified = None,
       ho_Metadata = (\<lambda>k. None), ho_ObjectLockLegalHoldStatus = None,
       ho_ObjectLockMode = None, ho_ObjectLockRetainUntilDate = None,
       ho_ServerSideEncryption = None, ho_SSEKMSKeyId = None, ho_StorageClass = None,
       ho_VersionId = None, ho_WebsiteRedirectLocation = None \<rparr>"

definition sampleS3 :: "HeadObjectOutput \<Rightarrow> S3API" where
  "sampleS3 out =
     \<lparr> HeadObject = (\<lambda>input. Inr out),
       GetObject = (\<lambda>input. Inr \<lparr> go_Body = Inr ''abc'' \<rparr>),
       GetObjectTagging = (\<lambda>k bucket key. Inl (AWSError ''NoSuchTagSet'' ''no tags'')),
       GetBucketTagging = (\<lambda>bucket. Inl (AWSError ''NoSuchTagSetError'' ''no tags'')),
       PutBucketTagging = (\<lambda>bucket tags. None),
       DeleteBucketTagging = (\<lambda>bucket. None),
       PutObjectTagging = (\<lambda>bucket key tags. None),
       DeleteObjectTagging = (\<lambda>bucket key. None) \<rparr>"


definition sampleS3Client :: S3Client where
  "sampleS3Client =
     \<lparr> GetObjectTaggingV2 = (\<lambda>k bucket key. Inl (AWSError ''NoSuchTagSet'' ''no tags'')) \<rparr>"

definition sampleHelpers :: S3Helpers where
  "sampleHelpers =
     \<lparr> Format_RFC1123 = (\<lambda>t. ''Thu, 01 Jan 1970 00:00:00 UTC''),
       Sprintf_q = (\<lambda>s. [CHR 0x22] @ s @ [CHR 0x22]),
       flattenObjectDate = (\<lambda>t. []),
       PointersMapToStringList = (\<lambda>m k. case m k of Some (Some v) \<Rightarrow> Some v | _ \<Rightarrow> None),
       tagsToMap = (\<lambda>t. fmlookup (tagsOf t)) \<rparr>"

definition sampleVersionedObjectData :: ResourceData where
  "sampleVersionedObjectData =
     \<lparr> rdId = [],
       rdAttrs = [''bucket'' \<mapsto> TString ''b'', ''key'' \<mapsto> TString ''k'',
                  ''version_id'' \<mapsto> TString ''v1''],
       rdIsNew = False,
       rdChanged = (\<lambda>k. False) \<rparr>"

definition sampleObjectData :: ResourceData where
  "sampleObjectData =
     \<lparr> rdId = [],
       rdAttrs = [''bucket'' \<mapsto> TString ''b'', ''key'' \<mapsto> TString ''k''],
       rdIsNew = False,
       rdChanged = (\<lambda>k. False) \<rparr>"

section \<open>Basic facts\<close>

lemma StringValue_String: "aws_StringValue (aws_String s) = s"
  by (simp add: aws_StringValue_def aws_String_def)

lemma Set_attr_id: "rdId (snd (Set_attr d k v)) = rdId d"
  by (simp add: Set_attr_def)

lemma Set_attr_attrs:
  "rdAttrs (snd (Set_attr d k v)) k' = (if k' = k then Some v else rdAttrs d k')"
  by (simp add: Set_attr_def)

lemma Set_attr_isNew: "rdIsNew (snd (Set_attr d k v)) = rdIsNew d"
  by (simp add: Set_attr_def)

lemma Set_attr_ok: "Set_attr d k v = (None, snd (Set_attr d k v))"
  by (simp add: Set_attr_def)

text \<open>\<^verbatim>\<open>strings.Contains\<close> holds exactly when the substring occurs somewhere in the text.\<close>

lemma strings_Contains_iff:
  "strings_Contains s sub \<longleftrightarrow> (\<exists>pre post. s = pre @ sub @ post)"
proof (induction s)
  case Nil
  then show ?case by auto
next
  case (Cons c cs)
  show ?case
  proof
    assume "strings_Contains (c # cs) sub"
    then consider "take (length sub) (c # cs) = sub" | "strings_Contains cs sub" by auto
    then show "\<exists>pre post. c # cs = pre @ sub @ post"
    proof cases
      case 1
      then have "c # cs = [] @ sub @ drop (length sub) (c # cs)"
        by (metis append_Nil append_take_drop_id)
      then show ?thesis by blast
    next
      case 2
      then obtain pre post where "cs = pre @ sub @ post" using Cons.IH by blast
      then have "c # cs = (c # pre) @ sub @ post" by simp
      then show ?thesis by blast
    qed
  next
    assume "\<exists>pre post. c # cs = pre @ sub @ post"
    then obtain pre post where e: "c # cs = pre @ sub @ post" by blast
    show "strings_Contains (c # cs) sub"
    proof (cases pre)
      case Nil
      then have "take (length sub) (c # cs) = sub" using e by simp
      then show ?thesis by simp
    next
      case (Cons p ps)
      then have "cs = ps @ sub @ post" using e by simp
      then have "strings_Contains cs sub" using Cons.IH by blast
      then show ?thesis by simp
    qed
  qed
qed

section \<open>Workforce: empty blocks, delete, identifier, schema\<close>

lemma expand_empty:
  assumes "l = [] \<or> hd l = TNil"
  shows "expandWorkforceCognitoConfig l = Inr None
       \<and> expandWorkforceOIDCConfig l = Inr None
       \<and> expandWorkforceSourceIPConfig fx l = Inr None
       \<and> expandWorkforceVPCConfig fx l =
           Inr (Some \<lparr> vpcq_SecurityGroupIds = [], vpcq_Subnets = [], vpcq_VpcId = None \<rparr>)"
  using assms
  by (auto simp: expandWorkforceCognitoConfig_def expandWorkforceOIDCConfig_def
      expandWorkforceSourceIPConfig_def expandWorkforceVPCConfig_def)

text \<open>
  The identifier after a read that reports no diagnostic: cleared when the resource is not
  marked new and the finder reports the workforce missing, unchanged otherwise.
\<close>

lemma workforce_read_id_exact:
  "resourceWorkforceRead conn fx d = ([], d') \<Longrightarrow>
     rdId d' =
       (if \<not> rdIsNew d \<and> (\<exists>e. FindWorkforceByName conn (rdId d) = Inl e \<and> NotFound (Some e))
        then [] else rdId d)"
  unfolding resourceWorkforceRead_def Let_def
  by (auto simp: Set_attr_def SetId_def AppendErrorf_def NotFound_def
      split: sum.splits option.splits prod.splits if_splits error.splits)

lemma workforce_read_found:
  "FindWorkforceByName conn (rdId d) = Inr w \<Longrightarrow> fst (resourceWorkforceRead conn fx d) = []"
  unfolding resourceWorkforceRead_def Let_def
  by (simp add: Set_attr_def NotFound_def)

lemma workforce_read_found_id:
  "FindWorkforceByName conn (rdId d) = Inr w \<Longrightarrow> rdId (snd (resourceWorkforceRead conn fx d)) = rdId d"
  unfolding resourceWorkforceRead_def Let_def
  by (simp add: Set_attr_def NotFound_def)

text \<open>
  Create, when the blocks that are set expand without a panic: the one request it sends,
  and its whole result when every call to the service succeeds.
\<close>

lemma create_sent_eq:
  assumes "(if Get_list d ''cognito_config'' \<noteq> []
            then expandWorkforceCognitoConfig (Get_list d ''cognito_config'') else Inr None)
           = Inr cognito"
    "(if Get_list d ''oidc_config'' \<noteq> []
      then expandWorkforceOIDCConfig (Get_list d ''oidc_config'') else Inr None) = Inr oidc"
    "(if Get_list d ''source_ip_config'' \<noteq> []
      then expandWorkforceSourceIPConfig fx (Get_list d ''source_ip_config'') else Inr None)
     = Inr sourceIp"
    "(if Get_list d ''workforce_vpc_config'' \<noteq> []
      then expandWorkforceVPCConfig fx (Get_list d ''workforce_vpc_config'') else Inr None)
     = Inr vpc"
  shows "map_sum id (\<lambda>r. snd (snd r)) (resourceWorkforceCreate conn fx d) =
     Inr [CreateWorkforceRequest
            \<lparr> cwi_WorkforceName = aws_String (Get_string d ''workforce_name''),
              cwi_CognitoConfig = cognito, cwi_OidcConfig = oidc,
              cwi_SourceIpConfig = sourceIp, cwi_WorkforceVpcConfig = vpc \<rparr>]"
  unfolding resourceWorkforceCreate_def Let_def GetOk_list_def prod.case
  by (simp add: assms bindP_def split: option.split prod.split)

lemma create_ok:
  assumes "(if Get_list d ''cognito_config'' \<noteq> []
            then expandWorkforceCognitoConfig (Get_list d ''cognito_config'') else Inr None)
           = Inr cognito"
    "(if Get_list d ''oidc_config'' \<noteq> []
      then expandWorkforceOIDCConfig (Get_list d ''oidc_config'') else Inr None) = Inr oidc"
    "(if Get_list d ''source_ip_config'' \<noteq> []
      then expandWorkforceSourceIPConfig fx (Get_list d ''source_ip_config'') else Inr None)
     = Inr sourceIp"
    "(if Get_list d ''workforce_vpc_config'' \<noteq> []
      then expandWorkforceVPCConfig fx (Get_list d ''workforce_vpc_config'') else Inr None)
     = Inr vpc"
    "CreateWorkforce conn
       \<lparr> cwi_WorkforceName = aws_String (Get_string d ''workforce_name''),
         cwi_CognitoConfig = cognito, cwi_OidcConfig = oidc,
         cwi_SourceIpConfig = sourceIp, cwi_WorkforceVpcConfig = vpc \<rparr> = None"
    "WaitWorkforceActive conn (Get_string d ''workforce_name'') = None"
    "FindWorkforceByName conn (Get_string d ''workforce_name'') = Inr w"
  shows "resourceWorkforceCreate conn fx d =
     Inr ([],
          snd (resourceWorkforceRead conn fx (SetId d (Get_string d ''workforce_name''))),
          [CreateWorkforceRequest
             \<lparr> cwi_WorkforceName = aws_String (Get_string d ''workforce_name''),
               cwi_CognitoConfig = cognito, cwi_OidcConfig = oidc,
               cwi_SourceIpConfig = sourceIp, cwi_WorkforceVpcConfig = vpc \<rparr>])"
proof -
  have i: "rdId (SetId d (Get_string d ''workforce_name'')) = Get_string d ''workforce_name''"
    by (simp add: SetId_def)
  have f: "fst (resourceWorkforceRead conn fx (SetId d (Get_string d ''workforce_name''))) = []"
    by (rule workforce_read_found[of _ _ w]) (simp add: i assms(7))
  obtain a b
    where ab: "resourceWorkforceRead conn fx (SetId d (Get_string d ''workforce_name'')) = (a, b)"
    by (cases "resourceWorkforceRead conn fx (SetId d (Get_string d ''workforce_name''))")
  with f have a: "a = []" by simp
  show ?thesis
    unfolding resourceWorkforceCreate_def Let_def GetOk_list_def prod.case
    by (simp add: assms(1-6) bindP_def ab a)
qed

lemma create_id_exact:
  assumes "resourceWorkforceCreate conn fx d = Inr ([], d', sent)"
  shows "rdId d' =
     (if \<not> rdIsNew d
          \<and> (\<exists>e. FindWorkforceByName conn (Get_string d ''workforce_name'') = Inl e
                   \<and> NotFound (Some e))
      then [] else Get_string d ''workforce_name'')"
proof -
  let ?name = "Get_string d ''workforce_name''"
  have r: "resourceWorkforceRead conn fx (SetId d ?name) = ([], d')"
    using assms
    unfolding resourceWorkforceCreate_def Let_def bindP_def
    by (auto simp: AppendErrorf_def split: sum.splits option.splits prod.splits if_splits)
  have s: "rdId (SetId d ?name) = ?name" "rdIsNew (SetId d ?name) = rdIsNew d"
    by (simp_all add: SetId_def)
  from workforce_read_id_exact[OF r] show ?thesis
    unfolding s .
qed

text \<open>Update, likewise.\<close>

lemma update_sent_eq:
  assumes "(if rdChanged d ''source_ip_config''
            then expandWorkforceSourceIPConfig fx (Get_list d ''source_ip_config'') else Inr None)
           = Inr sourceIp"
    "(if rdChanged d ''oidc_config''
      then expandWorkforceOIDCConfig (Get_list d ''oidc_config'') else Inr None) = Inr oidc"
    "(if rdChanged d ''workforce_vpc_config''
      then expandWorkforceVPCConfig fx (Get_list d ''workforce_vpc_config'') else Inr None)
     = Inr vpc"
  shows "map_sum id (\<lambda>r. snd (snd r)) (resourceWorkforceUpdate conn fx d) =
     Inr [UpdateWorkforceRequest
            \<lparr> uwi_WorkforceName = aws_String (rdId d), uwi_OidcConfig = oidc,
              uwi_SourceIpConfig = sourceIp, uwi_WorkforceVpcConfig = vpc \<rparr>]"
  unfolding resourceWorkforceUpdate_def Let_def
  by (simp add: assms bindP_def split: option.split prod.split)

lemma update_ok:
  assumes "(if rdChanged d ''source_ip_config''
            then expandWorkforceSourceIPConfig fx (Get_list d ''source_ip_config'') else Inr None)
           = Inr sourceIp"
    "(if rdChanged d ''oidc_config''
      then expandWorkforceOIDCConfig (Get_list d ''oidc_config'') else Inr None) = Inr oidc"
    "(if rdChanged d ''workforce_vpc_config''
      then expandWorkforceVPCConfig fx (Get_list d ''workforce_vpc_config'') else Inr None)
     = Inr vpc"
    "UpdateWorkforce conn
       \<lparr> uwi_WorkforceName = aws_String (rdId d), uwi_OidcConfig = oidc,
         uwi_SourceIpConfig = sourceIp, uwi_WorkforceVpcConfig = vpc \<rparr> = None"
    "WaitWorkforceActive conn (rdId d) = None"
    "FindWorkforceByName conn (rdId d) = Inr w"
  shows "resourceWorkforceUpdate conn fx d =
     Inr ([], snd (resourceWorkforceRead conn fx d),
          [UpdateWorkforceRequest
             \<lparr> uwi_WorkforceName = aws_String (rdId d), uwi_OidcConfig = oidc,
               uwi_SourceIpConfig = sourceIp, uwi_WorkforceVpcConfig = vpc \<rparr>])"
proof -
  have f: "fst (resourceWorkforceRead conn fx d) = []"
    by (rule workforce_read_found[OF assms(6)])
  obtain a b where ab: "resourceWorkforceRead conn fx d = (a, b)"
    by (cases "resourceWorkforceRead conn fx d")
  with f have a: "a = []" by simp
  show ?thesis
    unfolding resourceWorkforceUpdate_def Let_def
    by (simp add: assms(1-5) bindP_def ab a)
qed

lemma delete_ok:
  assumes "DeleteWorkforce conn (aws_String (rdId d)) = None"
    "WaitWorkforceDeleted conn (rdId d) = None"
  shows "resourceWorkforceDelete conn d = ([], [DeleteWorkforceRequest (aws_String (rdId d))])"
  unfolding resourceWorkforceDelete_def Let_def
  by (simp add: assms ErrMessageContains_def)

text \<open>The sample connection answers every call with success.\<close>

lemma sample_service:
  "CreateWorkforce sampleSageMaker input = None"
  "UpdateWorkforce sampleSageMaker uinput = None"
  "WaitWorkforceActive sampleSageMaker name = None"
  "WaitWorkforceDeleted sampleSageMaker name = None"
  "FindWorkforceByName sampleSageMaker name = Inr sampleWorkforce"
  by (simp_all add: sampleSageMaker_def)

lemma sample_cognito:
  "expandWorkforceCognitoConfig
     [TMap [''client_id'' \<mapsto> TString ''client'', ''user_pool'' \<mapsto> TString ''pool'']]
   = Inr (Some \<lparr> cog_ClientId = Some ''client'', cog_UserPool = Some ''pool'' \<rparr>)"
  by (simp add: expandWorkforceCognitoConfig_def bindP_def assertMap_def assertString_def
      aws_String_def)

lemma sample_oidc:
  "expandWorkforceOIDCConfig [TMap sampleOidcBlock]
   = Inr (Some \<lparr> oidc_AuthorizationEndpoint = Some ''https://idp/auth'',
                  oidc_ClientId = Some ''client'',
                  oidc_ClientSecret = Some ''s3cret'',
                  oidc_Issuer = Some ''https://idp'',
                  oidc_JwksUri = Some ''https://idp/jwks'',
                  oidc_LogoutEndpoint = Some ''https://idp/logout'',
                  oidc_TokenEndpoint = Some ''https://idp/token'',
                  oidc_UserInfoEndpoint = Some ''https://idp/user'' \<rparr>)"
  by (simp add: expandWorkforceOIDCConfig_def bindP_def assertMap_def assertString_def
      aws_String_def sampleOidcBlock_def)

lemma sample_update_data:
  "rdId sampleWorkforceData = ''wf''"
  "rdChanged sampleWorkforceData ''source_ip_config''"
  "\<not> rdChanged sampleWorkforceData ''oidc_config''"
  "rdChanged sampleWorkforceData ''workforce_vpc_config''"
  "Get_list sampleWorkforceData ''source_ip_config'' = []"
  "Get_list sampleWorkforceData ''workforce_vpc_config'' = []"
  by (simp_all add: Get_list_def sampleWorkforceData_def)

text \<open>
  Claim C10. Applied to an empty list, or to a list whose first element is nil, the
  Cognito, OIDC and source-IP expanders return nil, so the block is left out of the
  request; the VPC expander returns a request structure that is not nil and has every field
  unset. Hence an update in which \<^verbatim>\<open>workforce_vpc_config\<close> has changed to such a list
  sends \<^verbatim>\<open>UpdateWorkforce\<close> with the empty VPC configuration, where one in which
  \<^verbatim>\<open>source_ip_config\<close> has changed to such a list sends it with no source-IP
  configuration (the other changed blocks expanding without a panic).
\<close>

theorem C10_empty_block_expansion:
  assumes "l = [] \<or> hd l = TNil"
  shows "expandWorkforceCognitoConfig l = Inr None
       \<and> expandWorkforceOIDCConfig l = Inr None
       \<and> expandWorkforceSourceIPConfig fx l = Inr None
       \<and> expandWorkforceVPCConfig fx l =
           Inr (Some \<lparr> vpcq_SecurityGroupIds = [], vpcq_Subnets = [], vpcq_VpcId = None \<rparr>)
       \<and> (rdChanged d ''workforce_vpc_config'' \<and> Get_list d ''workforce_vpc_config'' = l
            \<and> (if rdChanged d ''source_ip_config''
                then expandWorkforceSourceIPConfig fx (Get_list d ''source_ip_config'')
                else Inr None) = Inr sourceIp
            \<and> (if rdChanged d ''oidc_config''
                then expandWorkforceOIDCConfig (Get_list d ''oidc_config'') else Inr None)
               = Inr oidc
          \<longrightarrow> map_sum id (\<lambda>r. snd (snd r)) (resourceWorkforceUpdate conn fx d) =
                Inr [UpdateWorkforceRequest
                       \<lparr> uwi_WorkforceName = aws_String (rdId d), uwi_OidcConfig = oidc,
                         uwi_SourceIpConfig = sourceIp,
                         uwi_WorkforceVpcConfig =
                           Some \<lparr> vpcq_SecurityGroupIds = [], vpcq_Subnets = [],
                                  vpcq_VpcId = None \<rparr> \<rparr>])
       \<and> (rdChanged d ''source_ip_config'' \<and> Get_list d ''source_ip_config'' = l
            \<and> (if rdChanged d ''oidc_config''
                then expandWorkforceOIDCConfig (Get_list d ''oidc_config'') else Inr None)
               = Inr oidc
            \<and> (if rdChanged d ''workforce_vpc_config''
                then expandWorkforceVPCConfig fx (Get_list d ''workforce_vpc_config'')
                else Inr None) = Inr vpc
          \<longrightarrow> map_sum id (\<lambda>r. snd (snd r)) (resourceWorkforceUpdate conn fx d) =
                Inr [UpdateWorkforceRequest
                       \<lparr> uwi_WorkforceName = aws_String (rdId d), uwi_OidcConfig = oidc,
                         uwi_SourceIpConfig = None, uwi_WorkforceVpcConfig = vpc \<rparr>])"
proof -
  note e = expand_empty[OF assms, of fx]
  have v: "map_sum id (\<lambda>r. snd (snd r)) (resourceWorkforceUpdate conn fx d) =
                Inr [UpdateWorkforceRequest
                       \<lparr> uwi_WorkforceName = aws_String (rdId d), uwi_OidcConfig = oidc,
                         uwi_SourceIpConfig = sourceIp,
                         uwi_WorkforceVpcConfig =
                           Some \<lparr> vpcq_SecurityGroupIds = [], vpcq_Subnets = [],
                                  vpcq_VpcId = None \<rparr> \<rparr>]"
    if "rdChanged d ''workforce_vpc_config''" "Get_list d ''workforce_vpc_config'' = l"
       "(if rdChanged d ''source_ip_config''
         then expandWorkforceSourceIPConfig fx (Get_list d ''source_ip_config'')
         else Inr None) = Inr sourceIp"
       "(if rdChanged d ''oidc_config''
         then expandWorkforceOIDCConfig (Get_list d ''oidc_config'') else Inr None) = Inr oidc"
  proof (rule update_sent_eq[OF that(3) that(4)])
    show "(if rdChanged d ''workforce_vpc_config''
           then expandWorkforceVPCConfig fx (Get_list d ''workforce_vpc_config'') else Inr None)
          = Inr (Some \<lparr> vpcq_SecurityGroupIds = [], vpcq_Subnets = [], vpcq_VpcId = None \<rparr>)"
      using that(1,2) e by simp
  qed
  have s: "map_sum id (\<lambda>r. snd (snd r)) (resourceWorkforceUpdate conn fx d) =
                Inr [UpdateWorkforceRequest
                       \<lparr> uwi_WorkforceName = aws_String (rdId d), uwi_OidcConfig = oidc,
                         uwi_SourceIpConfig = None, uwi_WorkforceVpcConfig = vpc \<rparr>]"
    if "rdChanged d ''source_ip_config''" "Get_list d ''source_ip_config'' = l"
       "(if rdChanged d ''oidc_config''
         then expandWorkforceOIDCConfig (Get_list d ''oidc_config'') else Inr None) = Inr oidc"
       "(if rdChanged d ''workforce_vpc_config''
         then expandWorkforceVPCConfig fx (Get_list d ''workforce_vpc_config'')
         else Inr None) = Inr vpc"
  proof (rule update_sent_eq[OF _ that(3) that(4)])
    show "(if rdChanged d ''source_ip_config''
           then expandWorkforceSourceIPConfig fx (Get_list d ''source_ip_config'') else Inr None)
          = Inr None"
      using that(1,2) e by simp
  qed
  from e v s show ?thesis by blast
qed

theorem C10_empty_block_expansion_witness:
  "expandWorkforceCognitoConfig [] = Inr None
   \<and> expandWorkforceOIDCConfig [] = Inr None
   \<and> expandWorkforceSourceIPConfig flexCopy [] = Inr None
   \<and> expandWorkforceVPCConfig flexCopy [] =
       Inr (Some \<lparr> vpcq_SecurityGroupIds = [], vpcq_Subnets = [], vpcq_VpcId = None \<rparr>)
   \<and> map_sum id (\<lambda>r. snd (snd r))
        (resourceWorkforceUpdate sampleSageMaker flexCopy sampleWorkforceData) =
       Inr [UpdateWorkforceRequest
              \<lparr> uwi_WorkforceName = Some ''wf'', uwi_OidcConfig = None,
                uwi_SourceIpConfig = None,
                uwi_WorkforceVpcConfig =
                  Some \<lparr> vpcq_SecurityGroupIds = [], vpcq_Subnets = [], vpcq_VpcId = None \<rparr> \<rparr>]"
proof -
  have h: "([]::tfvalue list) = [] \<or> hd [] = TNil" by simp
  note t = C10_empty_block_expansion[OF h, where fx = flexCopy and d = sampleWorkforceData
      and conn = sampleSageMaker and oidc = None and sourceIp = None]
  have s: "(if rdChanged sampleWorkforceData ''source_ip_config''
            then expandWorkforceSourceIPConfig flexCopy
                   (Get_list sampleWorkforceData ''source_ip_config'')
            else Inr None) = Inr None"
    using t by (simp add: sample_update_data)
  have u: "map_sum id (\<lambda>r. snd (snd r))
             (resourceWorkforceUpdate sampleSageMaker flexCopy sampleWorkforceData) =
           Inr [UpdateWorkforceRequest
                  \<lparr> uwi_WorkforceName = Some ''wf'', uwi_OidcConfig = None,
                    uwi_SourceIpConfig = None,
                    uwi_WorkforceVpcConfig =
                      Some \<lparr> vpcq_SecurityGroupIds = [], vpcq_Subnets = [],
                             vpcq_VpcId = None \<rparr> \<rparr>]"
    using t s by (simp add: sample_update_data aws_String_def)
  from t u show ?thesis by blast
qed

text \<open>
  Claim C3. When \<^verbatim>\<open>DeleteWorkforce\<close> fails, the delete returns no diagnostics exactly if
  the error is a \<^verbatim>\<open>ValidationException\<close> whose message contains "No workforce" (the
  workforce is already gone); any other error comes back as one error diagnostic that
  carries it.
\<close>

theorem C3_delete_absent_workforce:
  assumes "DeleteWorkforce conn (aws_String (rdId d)) = Some e"
  shows "fst (resourceWorkforceDelete conn d) =
     (if (\<exists>pre post. e = AWSError ''ValidationException'' (pre @ ''No workforce'' @ post))
      then []
      else [Diagnostic SevError
              (''deleting SageMaker Workforce ('' @ rdId d @ ''): '' @ Error_text e)])"
proof -
  have "ErrMessageContains (Some e) ''ValidationException'' ''No workforce''
        \<longleftrightarrow> (\<exists>pre post. e = AWSError ''ValidationException'' (pre @ ''No workforce'' @ post))"
    by (cases e) (auto simp: ErrMessageContains_def strings_Contains_iff)
  then show ?thesis using assms
    by (simp add: resourceWorkforceDelete_def Let_def AppendErrorf_def)
qed

theorem C3_delete_absent_workforce_witness:
  "fst (resourceWorkforceDelete sampleSageMaker sampleWorkforceData) = []"
proof -
  have h: "DeleteWorkforce sampleSageMaker (aws_String (rdId sampleWorkforceData))
             = Some (AWSError ''ValidationException'' ''No workforce found'')"
    by (simp add: sampleSageMaker_def)
  have "AWSError ''ValidationException'' ''No workforce found''
          = AWSError ''ValidationException'' ([] @ ''No workforce'' @ '' found'')"
    by simp
  then have x: "\<exists>pre post. AWSError ''ValidationException'' ''No workforce found''
                  = AWSError ''ValidationException'' (pre @ ''No workforce'' @ post)"
    by blast
  show ?thesis
    using C3_delete_absent_workforce[OF h] x by (simp only: if_True)
qed

text \<open>
  Claim C7. In the schema both \<^verbatim>\<open>cognito_config\<close> and \<^verbatim>\<open>oidc_config\<close> carry the
  group \<^verbatim>\<open>ExactlyOneOf = {"oidc_config", "cognito_config"}\<close>, so the schema's check
  passes exactly when one of the two blocks is set and the other is not. None of the four
  callbacks checks the rule itself. Create and update send their one request with whichever
  of the two blocks are set (for update: have changed), and when every call to the
  service succeeds they report no diagnostic, whatever is set; read reports none when the
  workforce is found, delete none when the service deletes it.
\<close>

theorem C7_exactly_one_auth_config:
  "map_option ExactlyOneOf (map_of ResourceWorkforce_Schema ''cognito_config'')
     = Some [''oidc_config'', ''cognito_config'']
   \<and> map_option ExactlyOneOf (map_of ResourceWorkforce_Schema ''oidc_config'')
     = Some [''oidc_config'', ''cognito_config'']
   \<and> (schemaValidate ResourceWorkforce_Schema isSet
        \<longleftrightarrow> isSet ''oidc_config'' \<noteq> isSet ''cognito_config'')
   \<and> ((if Get_list d ''cognito_config'' \<noteq> []
         then expandWorkforceCognitoConfig (Get_list d ''cognito_config'') else Inr None)
        = Inr cognito
       \<and> (if Get_list d ''oidc_config'' \<noteq> []
           then expandWorkforceOIDCConfig (Get_list d ''oidc_config'') else Inr None) = Inr oidc
       \<and> (if Get_list d ''source_ip_config'' \<noteq> []
           then expandWorkforceSourceIPConfig fx (Get_list d ''source_ip_config'') else Inr None)
          = Inr sourceIp
       \<and> (if Get_list d ''workforce_vpc_config'' \<noteq> []
           then expandWorkforceVPCConfig fx (Get_list d ''workforce_vpc_config'') else Inr None)
          = Inr vpc
       \<longrightarrow> map_sum id (\<lambda>r. snd (snd r)) (resourceWorkforceCreate conn fx d) =
             Inr [CreateWorkforceRequest
                    \<lparr> cwi_WorkforceName = aws_String (Get_string d ''workforce_name''),
                      cwi_CognitoConfig = cognito, cwi_OidcConfig = oidc,
                      cwi_SourceIpConfig = sourceIp, cwi_WorkforceVpcConfig = vpc \<rparr>]
           \<and> (CreateWorkforce conn
                 \<lparr> cwi_WorkforceName = aws_String (Get_string d ''workforce_name''),
                   cwi_CognitoConfig = cognito, cwi_OidcConfig = oidc,
                   cwi_SourceIpConfig = sourceIp, cwi_WorkforceVpcConfig = vpc \<rparr> = None
               \<and> WaitWorkforceActive conn (Get_string d ''workforce_name'') = None
               \<and> FindWorkforceByName conn (Get_string d ''workforce_name'') = Inr w
               \<longrightarrow> resourceWorkforceCreate conn fx d =
                     Inr ([],
                          snd (resourceWorkforceRead conn fx
                                 (SetId d (Get_string d ''workforce_name''))),
                          [CreateWorkforceRequest
                             \<lparr> cwi_WorkforceName = aws_String (Get_string d ''workforce_name''),
                               cwi_CognitoConfig = cognito, cwi_OidcConfig = oidc,
                               cwi_SourceIpConfig = sourceIp, cwi_WorkforceVpcConfig = vpc \<rparr>])))
   \<and> ((if rdChanged d ''source_ip_config''
         then expandWorkforceSourceIPConfig fx (Get_list d ''source_ip_config'') else Inr None)
        = Inr usourceIp
       \<and> (if rdChanged d ''oidc_config''
           then expandWorkforceOIDCConfig (Get_list d ''oidc_config'') else Inr None) = Inr uoidc
       \<and> (if rdChanged d ''workforce_vpc_config''
           then expandWorkforceVPCConfig fx (Get_list d ''workforce_vpc_config'') else Inr None)
          = Inr uvpc
       \<longrightarrow> map_sum id (\<lambda>r. snd (snd r)) (resourceWorkforceUpdate conn fx d) =
             Inr [UpdateWorkforceRequest
                    \<lparr> uwi_WorkforceName = aws_String (rdId d), uwi_OidcConfig = uoidc,
                      uwi_SourceIpConfig = usourceIp, uwi_WorkforceVpcConfig = uvpc \<rparr>]
           \<and> (UpdateWorkforce conn
                 \<lparr> uwi_WorkforceName = aws_String (rdId d), uwi_OidcConfig = uoidc,
                   uwi_SourceIpConfig = usourceIp, uwi_WorkforceVpcConfig = uvpc \<rparr> = None
               \<and> WaitWorkforceActive conn (rdId d) = None
               \<and> FindWorkforceByName conn (rdId d) = Inr w
               \<longrightarrow> resourceWorkforceUpdate conn fx d =
                     Inr ([], snd (resourceWorkforceRead conn fx d),
                          [UpdateWorkforceRequest
                             \<lparr> uwi_WorkforceName = aws_String (rdId d), uwi_OidcConfig = uoidc,
                               uwi_SourceIpConfig = usourceIp,
                               uwi_WorkforceVpcConfig = uvpc \<rparr>])))
   \<and> (FindWorkforceByName conn (rdId d) = Inr w
        \<longrightarrow> fst (resourceWorkforceRead conn fx d) = [])
   \<and> (DeleteWorkforce conn (aws_String (rdId d)) = None
        \<and> WaitWorkforceDeleted conn (rdId d) = None
        \<longrightarrow> resourceWorkforceDelete conn d
             = ([], [DeleteWorkforceRequest (aws_String (rdId d))]))"
proof -
  have a: "map_option ExactlyOneOf (map_of ResourceWorkforce_Schema ''cognito_config'')
             = Some [''oidc_config'', ''cognito_config'']"
    by (simp add: ResourceWorkforce_Schema_def)
  have b: "map_option ExactlyOneOf (map_of ResourceWorkforce_Schema ''oidc_config'')
             = Some [''oidc_config'', ''cognito_config'']"
    by (simp add: ResourceWorkforce_Schema_def)
  have c: "schemaValidate ResourceWorkforce_Schema isSet
             \<longleftrightarrow> isSet ''oidc_config'' \<noteq> isSet ''cognito_config''"
    by (simp add: schemaValidate_def ResourceWorkforce_Schema_def validateExactlyOneOf_def)
  note cr = create_sent_eq[of d cognito oidc fx sourceIp vpc conn]
    create_ok[of d cognito oidc fx sourceIp vpc conn w]
  note up = update_sent_eq[of d fx usourceIp uoidc uvpc conn]
    update_ok[of d fx usourceIp uoidc uvpc conn w]
  note rd = workforce_read_found[of conn d w fx]
  note dl = delete_ok[of conn d]
  show ?thesis
    apply (intro conjI impI)
    subgoal by (rule a)
    subgoal by (rule b)
    subgoal by (rule c)
    subgoal by (rule cr(1)) (elim conjE, assumption)+
    subgoal by (rule cr(2)) (elim conjE, assumption)+
    subgoal by (rule up(1)) (elim conjE, assumption)+
    subgoal by (rule up(2)) (elim conjE, assumption)+
    subgoal by (rule rd)
    subgoal by (rule dl) (elim conjE, assumption)+
    done
qed

theorem C7_exactly_one_auth_config_witness:
  "\<not> schemaValidate ResourceWorkforce_Schema (\<lambda>k. True)
   \<and> \<not> schemaValidate ResourceWorkforce_Schema (\<lambda>k. False)
   \<and> schemaValidate ResourceWorkforce_Schema (\<lambda>k. k = ''cognito_config'')
   \<and> resourceWorkforceCreate sampleSageMaker flexCopy sampleBothAuthData =
       Inr ([],
            snd (resourceWorkforceRead sampleSageMaker flexCopy (SetId sampleBothAuthData ''wf'')),
            [CreateWorkforceRequest
               \<lparr> cwi_WorkforceName = Some ''wf'',
                 cwi_CognitoConfig =
                   Some \<lparr> cog_ClientId = Some ''client'', cog_UserPool = Some ''pool'' \<rparr>,
                 cwi_OidcConfig =
                   Some \<lparr> oidc_AuthorizationEndpoint = Some ''https://idp/auth'',
                          oidc_ClientId = Some ''client'',
                          oidc_ClientSecret = Some ''s3cret'',
                          oidc_Issuer = Some ''https://idp'',
                          oidc_JwksUri = Some ''https://idp/jwks'',
                          oidc_LogoutEndpoint = Some ''https://idp/logout'',
                          oidc_TokenEndpoint = Some ''https://idp/token'',
                          oidc_UserInfoEndpoint = Some ''https://idp/user'' \<rparr>,
                 cwi_SourceIpConfig = None, cwi_WorkforceVpcConfig = None \<rparr>])
   \<and> resourceWorkforceCreate sampleSageMaker flexCopy sampleNoAuthData =
       Inr ([],
            snd (resourceWorkforceRead sampleSageMaker flexCopy (SetId sampleNoAuthData ''wf'')),
            [CreateWorkforceRequest
               \<lparr> cwi_WorkforceName = Some ''wf'', cwi_CognitoConfig = None,
                 cwi_OidcConfig = None, cwi_SourceIpConfig = None,
                 cwi_WorkforceVpcConfig = None \<rparr>])
   \<and> resourceWorkforceUpdate sampleSageMaker flexCopy sampleNoAuthData =
       Inr ([], snd (resourceWorkforceRead sampleSageMaker flexCopy sampleNoAuthData),
            [UpdateWorkforceRequest
               \<lparr> uwi_WorkforceName = Some ''wf'', uwi_OidcConfig = None,
                 uwi_SourceIpConfig = None, uwi_WorkforceVpcConfig = None \<rparr>])
   \<and> fst (resourceWorkforceRead sampleSageMaker flexCopy sampleBothAuthData) = []
   \<and> resourceWorkforceDelete (sampleSageMaker\<lparr>DeleteWorkforce := (\<lambda>name. None)\<rparr>)
        sampleBothAuthData
       = ([], [DeleteWorkforceRequest (Some ''wf'')])"
proof -
  have g: "Get_string sampleBothAuthData ''workforce_name'' = ''wf''"
    "Get_list sampleBothAuthData ''cognito_config'' =
       [TMap [''client_id'' \<mapsto> TString ''client'', ''user_pool'' \<mapsto> TString ''pool'']]"
    "Get_list sampleBothAuthData ''oidc_config'' = [TMap sampleOidcBlock]"
    "Get_list sampleBothAuthData ''source_ip_config'' = []"
    "Get_list sampleBothAuthData ''workforce_vpc_config'' = []"
    "rdId sampleBothAuthData = ''wf''"
    by (simp_all add: Get_string_def Get_list_def sampleBothAuthData_def)
  have n: "Get_string sampleNoAuthData ''workforce_name'' = ''wf''"
    "Get_list sampleNoAuthData ''cognito_config'' = []"
    "Get_list sampleNoAuthData ''oidc_config'' = []"
    "Get_list sampleNoAuthData ''source_ip_config'' = []"
    "Get_list sampleNoAuthData ''workforce_vpc_config'' = []"
    "rdId sampleNoAuthData = ''wf''"
    "rdChanged sampleNoAuthData ''oidc_config''"
    "\<not> rdChanged sampleNoAuthData ''source_ip_config''"
    "\<not> rdChanged sampleNoAuthData ''workforce_vpc_config''"
    by (simp_all add: Get_string_def Get_list_def sampleNoAuthData_def)
  have e: "expandWorkforceOIDCConfig [] = Inr None"
    by (simp add: expandWorkforceOIDCConfig_def)
  have dl: "DeleteWorkforce (sampleSageMaker\<lparr>DeleteWorkforce := (\<lambda>name. None)\<rparr>) x = None"
    "WaitWorkforceDeleted (sampleSageMaker\<lparr>DeleteWorkforce := (\<lambda>name. None)\<rparr>) y = None" for x y
    by (simp_all add: sampleSageMaker_def)
  note both = C7_exactly_one_auth_config[where d = sampleBothAuthData and conn = sampleSageMaker
      and fx = flexCopy and w = sampleWorkforce and isSet = "\<lambda>k. True"
      and cognito = "Some \<lparr> cog_ClientId = Some ''client'', cog_UserPool = Some ''pool'' \<rparr>"
      and oidc = "Some \<lparr> oidc_AuthorizationEndpoint = Some ''https://idp/auth'',
                          oidc_ClientId = Some ''client'',
                          oidc_ClientSecret = Some ''s3cret'',
                          oidc_Issuer = Some ''https://idp'',
                          oidc_JwksUri = Some ''https://idp/jwks'',
                          oidc_LogoutEndpoint = Some ''https://idp/logout'',
                          oidc_TokenEndpoint = Some ''https://idp/token'',
                          oidc_UserInfoEndpoint = Some ''https://idp/user'' \<rparr>"
      and sourceIp = None and vpc = None]
  note none = C7_exactly_one_auth_config[where d = sampleNoAuthData and conn = sampleSageMaker
      and fx = flexCopy and w = sampleWorkforce and isSet = "\<lambda>k. False"
      and cognito = None and oidc = None and sourceIp = None and vpc = None
      and usourceIp = None and uoidc = None and uvpc = None]
  note del = C7_exactly_one_auth_config[where d = sampleBothAuthData
      and conn = "sampleSageMaker\<lparr>DeleteWorkforce := (\<lambda>name. None)\<rparr>",
      THEN conjunct2, THEN conjunct2, THEN conjunct2, THEN conjunct2, THEN conjunct2,
      THEN conjunct2]
  note one = C7_exactly_one_auth_config[where isSet = "\<lambda>k. k = ''cognito_config''"]
  have 1: "\<not> schemaValidate ResourceWorkforce_Schema (\<lambda>k. True)" using both by simp
  have 2: "\<not> schemaValidate ResourceWorkforce_Schema (\<lambda>k. False)" using none by simp
  have 3: "schemaValidate ResourceWorkforce_Schema (\<lambda>k. k = ''cognito_config'')"
    using one by simp
  have 4: "resourceWorkforceCreate sampleSageMaker flexCopy sampleBothAuthData =
       Inr ([],
            snd (resourceWorkforceRead sampleSageMaker flexCopy (SetId sampleBothAuthData ''wf'')),
            [CreateWorkforceRequest
               \<lparr> cwi_WorkforceName = Some ''wf'',
                 cwi_CognitoConfig =
                   Some \<lparr> cog_ClientId = Some ''client'', cog_UserPool = Some ''pool'' \<rparr>,
                 cwi_OidcConfig =
                   Some \<lparr> oidc_AuthorizationEndpoint = Some ''https://idp/auth'',
                          oidc_ClientId = Some ''client'',
                          oidc_ClientSecret = Some ''s3cret'',
                          oidc_Issuer = Some ''https://idp'',
                          oidc_JwksUri = Some ''https://idp/jwks'',
                          oidc_LogoutEndpoint = Some ''https://idp/logout'',
                          oidc_TokenEndpoint = Some ''https://idp/token'',
                          oidc_UserInfoEndpoint = Some ''https://idp/user'' \<rparr>,
                 cwi_SourceIpConfig = None, cwi_WorkforceVpcConfig = None \<rparr>])"
    using both by (simp add: g sample_cognito sample_oidc sample_service aws_String_def)
  have 5: "resourceWorkforceCreate sampleSageMaker flexCopy sampleNoAuthData =
       Inr ([],
            snd (resourceWorkforceRead sampleSageMaker flexCopy (SetId sampleNoAuthData ''wf'')),
            [CreateWorkforceRequest
               \<lparr> cwi_WorkforceName = Some ''wf'', cwi_CognitoConfig = None,
                 cwi_OidcConfig = None, cwi_SourceIpConfig = None,
                 cwi_WorkforceVpcConfig = None \<rparr>])"
    using none by (simp add: n sample_service aws_String_def)
  have 6: "resourceWorkforceUpdate sampleSageMaker flexCopy sampleNoAuthData =
       Inr ([], snd (resourceWorkforceRead sampleSageMaker flexCopy sampleNoAuthData),
            [UpdateWorkforceRequest
               \<lparr> uwi_WorkforceName = Some ''wf'', uwi_OidcConfig = None,
                 uwi_SourceIpConfig = None, uwi_WorkforceVpcConfig = None \<rparr>])"
    using none by (simp add: n e sample_service aws_String_def)
  have 7: "fst (resourceWorkforceRead sampleSageMaker flexCopy sampleBothAuthData) = []"
    using both[THEN conjunct2, THEN conjunct2, THEN conjunct2, THEN conjunct2, THEN conjunct2,
        THEN conjunct1]
    by (simp add: sample_service)
  have 8: "resourceWorkforceDelete (sampleSageMaker\<lparr>DeleteWorkforce := (\<lambda>name. None)\<rparr>)
             sampleBothAuthData
           = ([], [DeleteWorkforceRequest (Some ''wf'')])"
    using del by (simp add: dl g aws_String_def sample_service)
  from 1 2 3 4 5 6 7 8 show ?thesis by blast
qed

section \<open>S3 object data source: the read\<close>

lemma setObjectAttributes_id: "rdId (setObjectAttributes hp d out) = rdId d"
  unfolding setObjectAttributes_def Let_def
  by (simp add: Set_attr_id split: option.split)

lemma setObjectAttributes_storage_class:
  "rdAttrs (setObjectAttributes hp d out) ''storage_class'' =
     Some (TString (case ho_StorageClass out of None \<Rightarrow> ''STANDARD'' | Some c \<Rightarrow> c))"
  unfolding setObjectAttributes_def Let_def
  by (simp add: Set_attr_attrs StorageClassStandard_def ofStringPtr_def split: option.split)

lemma setObjectAttributes_body:
  "rdAttrs (setObjectAttributes hp d out) ''body'' = rdAttrs d ''body''"
  unfolding setObjectAttributes_def Let_def
  by (simp add: Set_attr_attrs split: option.split)

lemma readBody_attrs:
  "readBody conn d diags bucket key uid out = (Inr d', sent) \<Longrightarrow> k \<noteq> ''body''
     \<Longrightarrow> rdAttrs d' k = rdAttrs d k"
  unfolding readBody_def Let_def
  by (auto simp: Set_attr_def split: sum.splits prod.splits if_splits)

lemma readBody_id:
  "readBody conn d diags bucket key uid out = (Inr d', sent) \<Longrightarrow> rdId d' = rdId d"
  unfolding readBody_def Let_def
  by (auto simp: Set_attr_def split: sum.splits prod.splits if_splits)

lemma readBody_sent:
  "readBody conn d diags bucket key uid out = (r, sent) \<Longrightarrow>
     (sent \<noteq> [] \<longleftrightarrow> isContentTypeAllowed (ho_ContentType out)) \<and>
     (\<not> isContentTypeAllowed (ho_ContentType out) \<longrightarrow> r = Inr d)"
  unfolding readBody_def Let_def
  by (auto simp: Set_attr_def split: sum.splits prod.splits if_splits)

lemma readBody_not_allowed:
  "\<not> isContentTypeAllowed (ho_ContentType out) \<Longrightarrow>
     readBody conn d diags bucket key uid out = (Inr d, [])"
  unfolding readBody_def by simp

text \<open>The identifier the read computes before it calls the service.\<close>

lemma object_read_id:
  assumes "dataSourceObjectRead conn hp n d = ([], d', sent)"
  shows "rdId d' =
     (if Get_string d ''version_id'' = []
      then Get_string d ''bucket'' @ ''/'' @ Get_string d ''key''
      else Get_string d ''bucket'' @ ''/'' @ Get_string d ''key'' @ ''@''
             @ Get_string d ''version_id'')"
  using assms unfolding dataSourceObjectRead_def Let_def
  by (auto simp: AppendErrorf_def GetOk_string_def Set_attr_def SetId_def
      setObjectAttributes_id dest!: readBody_id
      split: sum.splits prod.splits if_splits option.splits)

lemma object_read_deleted:
  assumes "HeadObject conn (headObjectInput d) = Inr out" "ho_DeleteMarker out = Some True"
  shows "dataSourceObjectRead conn hp n d =
    ([Diagnostic SevError
        (''Requested S3 object ''
           @ Sprintf_q hp (Get_string d ''bucket'' @ Get_string d ''key'')
           @ (if Get_string d ''version_id'' = [] then []
              else '' of version '' @ Sprintf_q hp (Get_string d ''version_id''))
           @ '' has been deleted'')],
     d, [])"
  using assms unfolding dataSourceObjectRead_def Let_def
  by (simp add: aws_BoolValue_def AppendErrorf_def GetOk_string_def)

lemma object_read_storage_class:
  assumes "HeadObject conn (headObjectInput d) = Inr out" "\<not> aws_BoolValue (ho_DeleteMarker out)"
     "dataSourceObjectRead conn hp n d = (diags, d', sent)"
  shows "rdAttrs d' ''storage_class'' =
     Some (TString (case ho_StorageClass out of None \<Rightarrow> ''STANDARD'' | Some c \<Rightarrow> c))"
  using assms unfolding dataSourceObjectRead_def Let_def
  by (auto simp: Set_attr_def setObjectAttributes_storage_class
      dest!: readBody_attrs[where k="''storage_class''"]
      split: sum.splits prod.splits if_splits option.splits)

lemma object_read_body_gate:
  assumes "HeadObject conn (headObjectInput d) = Inr out"
     "dataSourceObjectRead conn hp n d = (diags, d', sent)"
  shows "(sent \<noteq> [] \<longrightarrow> isContentTypeAllowed (ho_ContentType out))
      \<and> (\<not> isContentTypeAllowed (ho_ContentType out)
           \<longrightarrow> sent = [] \<and> rdAttrs d' ''body'' = rdAttrs d ''body'')"
  using assms unfolding dataSourceObjectRead_def Let_def
  by (auto simp: Set_attr_def SetId_def setObjectAttributes_body
      dest!: readBody_sent
      split: sum.splits prod.splits if_splits option.splits)

text \<open>
  A read of an object whose body is not fetched and whose tags are listed succeeds: the
  identifier and the attributes are stored, then the tags.
\<close>

lemma object_read_plain:
  assumes "HeadObject conn (headObjectInput d) = Inr out" "\<not> aws_BoolValue (ho_DeleteMarker out)"
    "\<not> isContentTypeAllowed (ho_ContentType out)"
    "ObjectListTagsV1 conn n (Get_string d ''bucket'') (Get_string d ''key'') = (tags, None)"
  shows "dataSourceObjectRead conn hp n d =
     ([],
      snd (Set_attr
             (setObjectAttributes hp
                (SetId d (if Get_string d ''version_id'' = []
                          then Get_string d ''bucket'' @ ''/'' @ Get_string d ''key''
                          else Get_string d ''bucket'' @ ''/'' @ Get_string d ''key'' @ ''@''
                                 @ Get_string d ''version_id'')) out)
             ''tags'' (TStringMap (tagsToMap hp tags))),
      [])"
  using assms unfolding dataSourceObjectRead_def Let_def
  by (simp add: readBody_not_allowed GetOk_string_def Set_attr_def)

text \<open>
  Once \<^verbatim>\<open>HeadObject\<close> has answered with an object that is not a delete marker, the
  identifier is set, whatever the rest of the read does.
\<close>

lemma object_read_sets_id:
  assumes "HeadObject conn (headObjectInput d) = Inr out" "\<not> aws_BoolValue (ho_DeleteMarker out)"
     "dataSourceObjectRead conn hp n d = (diags, d', sent)"
  shows "rdId d' =
     (if Get_string d ''version_id'' = []
      then Get_string d ''bucket'' @ ''/'' @ Get_string d ''key''
      else Get_string d ''bucket'' @ ''/'' @ Get_string d ''key'' @ ''@''
             @ Get_string d ''version_id'')"
  using assms unfolding dataSourceObjectRead_def Let_def
  by (auto simp: GetOk_string_def Set_attr_def SetId_def setObjectAttributes_id
      dest!: readBody_id
      split: sum.splits prod.splits if_splits option.splits)

section \<open>S3 tags\<close>

lemma ErrCodeEquals_noTagSet:
  "ErrCodeEquals (Some e) [errCodeNoSuchTagSet, errCodeNoSuchTagSetError] \<longleftrightarrow>
     (\<exists>m. e = AWSError ''NoSuchTagSet'' m \<or> e = AWSError ''NoSuchTagSetError'' m)"
  by (cases e) (auto simp: ErrCodeEquals_def errCodeNoSuchTagSet_def errCodeNoSuchTagSetError_def)

lemma BucketListTags_err:
  "GetBucketTagging conn identifier = Inl e \<Longrightarrow>
   BucketListTags conn identifier =
     (Tags fmempty,
      if (\<exists>m. e = AWSError ''NoSuchTagSet'' m \<or> e = AWSError ''NoSuchTagSetError'' m)
      then None else Some e)"
  unfolding BucketListTags_def Let_def
  by (simp add: errOf_def ErrCodeEquals_noTagSet tftags_New_def)

lemma ObjectListTagsV1_err:
  "retriedGetObjectTagging conn n bucket key = Inl e \<Longrightarrow>
   ObjectListTagsV1 conn n bucket key =
     (Tags fmempty,
      if (\<exists>m. e = AWSError ''NoSuchTagSet'' m \<or> e = AWSError ''NoSuchTagSetError'' m)
      then None else Some e)"
  unfolding ObjectListTagsV1_def Let_def
  by (simp add: errOf_def ErrCodeEquals_noTagSet tftags_New_def)


text \<open>The retry returns the outcome of one of the attempts the timeout allows.\<close>

lemma RetryWhen_attempt:
  "\<exists>j. k \<le> j \<and> j \<le> k + n \<and> RetryWhen n p f k = f j"
proof (induction n arbitrary: k)
  case 0
  then show ?case by auto
next
  case (Suc n)
  show ?case
  proof (cases "f k")
    case (Inl e)
    show ?thesis
    proof (cases "p e")
      case True
      from Suc.IH[of "Suc k"] obtain j
        where "Suc k \<le> j" "j \<le> Suc k + n" "RetryWhen n p f (Suc k) = f j" by blast
      with Inl True show ?thesis by (intro exI[of _ j]) simp
    next
      case False
      with Inl show ?thesis by (intro exI[of _ k]) simp
    qed
  next
    case (Inr v)
    then show ?thesis by (intro exI[of _ k]) simp
  qed
qed

text \<open>An error that is not one to retry on ends the retry at once.\<close>

lemma RetryWhen_first:
  "f k = Inl e \<Longrightarrow> \<not> p e \<Longrightarrow> RetryWhen n p f k = Inl e"
  by (cases n) auto

lemma sample_retried:
  "retriedGetObjectTagging (sampleS3 out) n bucket key = Inl (AWSError ''NoSuchTagSet'' ''no tags'')"
  unfolding retriedGetObjectTagging_def
  by (rule RetryWhen_first) (simp_all add: sampleS3_def ErrCodeEquals_def ErrCodeNoSuchKey_def)

lemma sample_retried_v2:
  "retriedGetObjectTaggingV2 sampleS3Client n bucket key
     = Inl (AWSError ''NoSuchTagSet'' ''no tags'')"
  unfolding retriedGetObjectTaggingV2_def
  by (rule RetryWhen_first) (simp_all add: sampleS3Client_def ErrCodeNoSuchKey_def)

lemma sample_object_tags:
  "ObjectListTagsV1 (sampleS3 out) n bucket key = (Tags fmempty, None)"
  using ObjectListTagsV1_err[OF sample_retried, of out n bucket key] by simp

lemma sample_bucket_tags:
  "BucketListTags (sampleS3 out) bucket = (Tags fmempty, None)"
proof -
  have "GetBucketTagging (sampleS3 out) bucket = Inl (AWSError ''NoSuchTagSetError'' ''no tags'')"
    by (simp add: sampleS3_def)
  from BucketListTags_err[OF this] show ?thesis by simp
qed








lemma fmdom_fempty_iff: "fmdom m = {||} \<longleftrightarrow> m = fmempty"
proof
  assume e: "fmdom m = {||}"
  show "m = fmempty"
  proof (rule fmap_ext)
    fix x
    have "x |\<notin>| fmdom m" using e by simp
    then show "fmlookup m x = fmlookup fmempty x" by (simp add: fmdom_notD)
  qed
next
  assume "m = fmempty"
  then show "fmdom m = {||}" by simp
qed

lemma len_zero: "len t = 0 \<longleftrightarrow> tagsOf t = fmempty"
  unfolding len_def by (simp add: fmdom_fempty_iff)

lemma len_pos: "0 < len t \<longleftrightarrow> tagsOf t \<noteq> fmempty"
  using len_zero[of t] by auto

lemma len_sum_pos: "0 < len a + len b \<longleftrightarrow> tagsOf (Merge a b) \<noteq> fmempty"
proof -
  have "m ++\<^sub>f n = fmempty \<longleftrightarrow> m = fmempty \<and> n = fmempty" for m n :: "(string, string) fmap"
    by (simp flip: fmdom_fempty_iff)
  then show ?thesis
    by (simp add: len_pos Merge_def tagsOf_def)
qed

lemma merge_nonempty: "0 < len a + len b \<Longrightarrow> tagsOf (Merge a b) \<noteq> fmempty"
  by (rule iffD1[OF len_sum_pos])

lemma merge_empty: "\<not> 0 < len a + len b \<Longrightarrow> tagsOf (Merge a b) = fmempty"
  using iffD2[OF len_sum_pos, of a b] by (cases "tagsOf (Merge a b) = fmempty") simp_all

lemma merge_empty_iff:
  "tagsOf (Merge a b) = fmempty \<longleftrightarrow> tagsOf a = fmempty \<and> tagsOf b = fmempty"
  by (simp add: Merge_def tagsOf_def flip: fmdom_fempty_iff)

lemma tags_nonempty: "0 < len t \<Longrightarrow> tagsOf t \<noteq> fmempty"
  by (rule iffD1[OF len_pos])

lemma tags_empty: "\<not> 0 < len t \<Longrightarrow> tagsOf t = fmempty"
  by (simp add: len_zero)

lemma BucketUpdateTags_calls:
  assumes "BucketListTags conn identifier = (allTags, None)"
  shows "snd (BucketUpdateTags conn identifier oldTagsMap newTagsMap) =
     (let ignored = Ignore (Ignore allTags (tftags_New oldTagsMap)) (tftags_New newTagsMap);
          merged = Merge (tftags_New newTagsMap) ignored
      in if tagsOf merged \<noteq> fmempty then [PutBucketTaggingCall identifier merged]
         else if tagsOf (tftags_New oldTagsMap) \<noteq> fmempty
              then [DeleteBucketTaggingCall identifier]
         else [])"
proof -
  let ?old = "tftags_New oldTagsMap" and ?new = "tftags_New newTagsMap"
  let ?ign = "Ignore (Ignore allTags ?old) ?new"
  show ?thesis
  proof (cases "0 < len ?new + len ?ign")
    case True
    moreover from True have "tagsOf (Merge ?new ?ign) \<noteq> fmempty" by (rule merge_nonempty)
    ultimately show ?thesis
      unfolding BucketUpdateTags_def using assms by (simp add: Let_def split: option.splits)
  next
    case False
    then have m: "tagsOf (Merge ?new ?ign) = fmempty" by (rule merge_empty)
    from False have i: "len ?ign = 0" by simp
    show ?thesis
    proof (cases "0 < len ?old")
      case True
      moreover from True have "tagsOf ?old \<noteq> fmempty" by (rule tags_nonempty)
      ultimately show ?thesis
        unfolding BucketUpdateTags_def using assms False m i
        by (simp add: Let_def split: option.splits)
    next
      case F2: False
      then have "tagsOf ?old = fmempty" by (rule tags_empty)
      then show ?thesis
        unfolding BucketUpdateTags_def using assms False F2 m i
        by (simp add: Let_def split: option.splits)
    qed
  qed
qed

lemma ObjectUpdateTags_calls:
  assumes "ObjectListTagsV1 conn n bucket key = (allTags, None)"
  shows "snd (ObjectUpdateTags conn n bucket key oldTagsMap newTagsMap) =
     (let ignored = Ignore (Ignore allTags (tftags_New oldTagsMap)) (tftags_New newTagsMap);
          merged = Merge (tftags_New newTagsMap) ignored
      in if tagsOf merged \<noteq> fmempty then [PutObjectTaggingCall bucket key merged]
         else if tagsOf (tftags_New oldTagsMap) \<noteq> fmempty
              then [DeleteObjectTaggingCall bucket key]
         else [])"
proof -
  let ?old = "tftags_New oldTagsMap" and ?new = "tftags_New newTagsMap"
  let ?ign = "Ignore (Ignore allTags ?old) ?new"
  show ?thesis
  proof (cases "0 < len ?new + len ?ign")
    case True
    moreover from True have "tagsOf (Merge ?new ?ign) \<noteq> fmempty" by (rule merge_nonempty)
    ultimately show ?thesis
      unfolding ObjectUpdateTags_def using assms by (simp add: Let_def split: option.splits)
  next
    case False
    then have m: "tagsOf (Merge ?new ?ign) = fmempty" by (rule merge_empty)
    from False have i: "len ?ign = 0" by simp
    show ?thesis
    proof (cases "0 < len ?old")
      case True
      moreover from True have "tagsOf ?old \<noteq> fmempty" by (rule tags_nonempty)
      ultimately show ?thesis
        unfolding ObjectUpdateTags_def using assms False m i
        by (simp add: Let_def split: option.splits)
    next
      case F2: False
      then have "tagsOf ?old = fmempty" by (rule tags_empty)
      then show ?thesis
        unfolding ObjectUpdateTags_def using assms False F2 m i
        by (simp add: Let_def split: option.splits)
    qed
  qed
qed

lemma BucketUpdateTags_list_failed:
  "BucketListTags conn identifier = (allTags, Some e) \<Longrightarrow>
     snd (BucketUpdateTags conn identifier oldTagsMap newTagsMap) = []"
  unfolding BucketUpdateTags_def Let_def by simp

lemma ObjectUpdateTags_list_failed:
  "ObjectListTagsV1 conn n bucket key = (allTags, Some e) \<Longrightarrow>
     snd (ObjectUpdateTags conn n bucket key oldTagsMap newTagsMap) = []"
  unfolding ObjectUpdateTags_def Let_def by simp

lemma BucketUpdateTags_at_most_one:
  "length (snd (BucketUpdateTags conn identifier oldTagsMap newTagsMap)) \<le> 1"
  unfolding BucketUpdateTags_def Let_def
  by (auto split: option.splits prod.splits)

lemma ObjectUpdateTags_at_most_one:
  "length (snd (ObjectUpdateTags conn n bucket key oldTagsMap newTagsMap)) \<le> 1"
  unfolding ObjectUpdateTags_def Let_def
  by (auto split: option.splits prod.splits)

text \<open>
  Claim C5. An update of bucket or object tags sends at most one mutating request. When
  the listing of the current tags succeeds, with \<open>ignored\<close> the listed tags whose keys are
  neither old nor new: one Put of the new tags merged with the ignored ones when that
  merged set is not empty; one Delete when it is empty (the new and the ignored sets are
  both empty) and the old set is not; nothing otherwise. When the listing fails nothing is
  sent. A Put and a Delete are never sent by the same call.
\<close>

theorem C5_update_tags_one_call:
  "length (snd (BucketUpdateTags conn bucketName oldTagsMap newTagsMap)) \<le> 1
   \<and> length (snd (ObjectUpdateTags conn n bucket key oldTagsMap newTagsMap)) \<le> 1
   \<and> (BucketListTags conn bucketName = (allTags, None) \<longrightarrow>
        snd (BucketUpdateTags conn bucketName oldTagsMap newTagsMap) =
          (let ignored = Ignore (Ignore allTags (tftags_New oldTagsMap)) (tftags_New newTagsMap);
               merged = Merge (tftags_New newTagsMap) ignored
           in if tagsOf merged \<noteq> fmempty then [PutBucketTaggingCall bucketName merged]
              else if tagsOf (tftags_New oldTagsMap) \<noteq> fmempty
                   then [DeleteBucketTaggingCall bucketName]
              else []))
   \<and> (ObjectListTagsV1 conn n bucket key = (allTags, None) \<longrightarrow>
        snd (ObjectUpdateTags conn n bucket key oldTagsMap newTagsMap) =
          (let ignored = Ignore (Ignore allTags (tftags_New oldTagsMap)) (tftags_New newTagsMap);
               merged = Merge (tftags_New newTagsMap) ignored
           in if tagsOf merged \<noteq> fmempty then [PutObjectTaggingCall bucket key merged]
              else if tagsOf (tftags_New oldTagsMap) \<noteq> fmempty
                   then [DeleteObjectTaggingCall bucket key]
              else []))
   \<and> (BucketListTags conn bucketName = (allTags, Some e) \<longrightarrow>
        snd (BucketUpdateTags conn bucketName oldTagsMap newTagsMap) = [])
   \<and> (ObjectListTagsV1 conn n bucket key = (allTags, Some e) \<longrightarrow>
        snd (ObjectUpdateTags conn n bucket key oldTagsMap newTagsMap) = [])
   \<and> (tagsOf (Merge a b) = fmempty \<longleftrightarrow> tagsOf a = fmempty \<and> tagsOf b = fmempty)"
  using BucketUpdateTags_at_most_one[of conn bucketName oldTagsMap newTagsMap]
    ObjectUpdateTags_at_most_one[of conn n bucket key oldTagsMap newTagsMap]
    BucketUpdateTags_calls[of conn bucketName allTags oldTagsMap newTagsMap]
    ObjectUpdateTags_calls[of conn n bucket key allTags oldTagsMap newTagsMap]
    BucketUpdateTags_list_failed[of conn bucketName allTags e oldTagsMap newTagsMap]
    ObjectUpdateTags_list_failed[of conn n bucket key allTags e oldTagsMap newTagsMap]
    merge_empty_iff[of a b]
  by blast

theorem C5_update_tags_one_call_witness:
  "snd (BucketUpdateTags (sampleS3 sampleHead) ''b'' (Some (fmupd ''env'' ''dev'' fmempty)) None)
     = [DeleteBucketTaggingCall ''b'']
   \<and> snd (ObjectUpdateTags (sampleS3 sampleHead) 2 ''b'' ''k'' None
            (Some (fmupd ''env'' ''dev'' fmempty)))
     = [PutObjectTaggingCall ''b'' ''k'' (Tags (fmupd ''env'' ''dev'' fmempty))]
   \<and> snd (BucketUpdateTags (sampleS3 sampleHead) ''b'' None None) = []"
proof -
  have i: "Ignore (Ignore (Tags fmempty) x) y = Tags fmempty" for x y
    by (simp add: Ignore_def tagsOf_def)
  have m: "Merge (Tags t) (Tags fmempty) = Tags t" for t
    by (simp add: Merge_def tagsOf_def)
  have ne: "fmupd ''env'' ''dev'' fmempty \<noteq> (fmempty :: (string, string) fmap)"
    by (metis fmdom_empty fmdom_fmupd finsert_not_fempty)
  have 1: "snd (BucketUpdateTags (sampleS3 sampleHead) ''b''
                  (Some (fmupd ''env'' ''dev'' fmempty)) None) = [DeleteBucketTaggingCall ''b'']"
    using C5_update_tags_one_call[where conn = "sampleS3 sampleHead" and bucketName = "''b''"
        and allTags = "Tags fmempty" and oldTagsMap = "Some (fmupd ''env'' ''dev'' fmempty)"
        and newTagsMap = None] sample_bucket_tags[of sampleHead "''b''"] ne
    by (simp add: i m tftags_New_def tagsOf_def Let_def)
  have 2: "snd (ObjectUpdateTags (sampleS3 sampleHead) 2 ''b'' ''k'' None
                  (Some (fmupd ''env'' ''dev'' fmempty)))
             = [PutObjectTaggingCall ''b'' ''k'' (Tags (fmupd ''env'' ''dev'' fmempty))]"
    using C5_update_tags_one_call[where conn = "sampleS3 sampleHead" and n = 2
        and bucket = "''b''" and key = "''k''"
        and allTags = "Tags fmempty" and newTagsMap = "Some (fmupd ''env'' ''dev'' fmempty)"
        and oldTagsMap = None] sample_object_tags[of sampleHead 2 "''b''" "''k''"] ne
    by (simp add: i m tftags_New_def tagsOf_def Let_def)
  have 3: "snd (BucketUpdateTags (sampleS3 sampleHead) ''b'' None None) = []"
    using C5_update_tags_one_call[where conn = "sampleS3 sampleHead" and bucketName = "''b''"
        and allTags = "Tags fmempty" and oldTagsMap = None
        and newTagsMap = None] sample_bucket_tags[of sampleHead "''b''"]
    by (simp add: i m tftags_New_def tagsOf_def Let_def)
  from 1 2 3 show ?thesis by blast
qed

section \<open>The content-type allow-list\<close>

lemma rounds_nonempty: "rounds step (Suc n) i \<noteq> [] \<longleftrightarrow> step i \<noteq> []"
  by (cases "step i") (simp_all add: Let_def)

lemma matchAt_exact:
  "matchAt (Concat BeginText (Concat (Literal l) EndText)) s i \<noteq> [] \<longleftrightarrow> i = 0 \<and> s = l"
proof -
  have "take (length l) s = l \<and> length l = length s \<longleftrightarrow> s = l"
    by (metis order_refl take_all)
  then show ?thesis by auto
qed

lemma MatchString_exact:
  "MatchString (Concat BeginText (Concat (Literal l) EndText)) s \<longleftrightarrow> s = l"
  unfolding MatchString_def list_ex_iff matchAt_exact by auto

lemma matchAt_prefix_plus:
  "matchAt (Concat BeginText (Concat (Literal l) (Plus AnyCharNotNL))) s i \<noteq> [] \<longleftrightarrow>
     i = 0 \<and> take (length l) s = l \<and> length l < length s \<and> s ! length l \<noteq> CHR 0x0A"
  by (auto simp: rounds_nonempty simp del: rounds.simps)

lemma MatchString_prefix_plus:
  "MatchString (Concat BeginText (Concat (Literal l) (Plus AnyCharNotNL))) s \<longleftrightarrow>
     (\<exists>c cs. s = l @ c # cs \<and> c \<noteq> CHR 0x0A)"
proof -
  have "(take (length l) s = l \<and> length l < length s \<and> s ! length l \<noteq> CHR 0x0A)
        \<longleftrightarrow> (\<exists>c cs. s = l @ c # cs \<and> c \<noteq> CHR 0x0A)" (is "?L \<longleftrightarrow> ?R")
  proof
    assume L: ?L
    then have "s = l @ drop (length l) s" by (metis append_take_drop_id)
    moreover from L have "drop (length l) s = s ! length l # drop (Suc (length l)) s"
      by (simp add: Cons_nth_drop_Suc)
    ultimately have "s = l @ s ! length l # drop (Suc (length l)) s" by simp
    with L show ?R by blast
  next
    assume ?R
    then show ?L by (auto simp: nth_append)
  qed
  then show ?thesis
    unfolding MatchString_def list_ex_iff matchAt_prefix_plus by auto
qed

lemma isContentTypeAllowed_Some:
  "isContentTypeAllowed (Some s) \<longleftrightarrow>
     (s = ''application/atom+xml'' \<or> s = ''application/json'' \<or> s = ''application/ld+json'' \<or>
      s = ''application/x-csh'' \<or> s = ''application/x-httpd-php'' \<or> s = ''application/x-sh'' \<or>
      s = ''application/xhtml+xml'' \<or> s = ''application/xml'' \<or>
      (\<exists>c cs. s = ''text/'' @ c # cs \<and> c \<noteq> CHR 0x0A))"
  unfolding isContentTypeAllowed_def allowedContentTypes_def option.case
    list_ex_Cons_iff list_ex_Nil_iff MatchString_exact MatchString_prefix_plus
  by (simp only: simp_thms)

lemma isContentTypeAllowed_None: "\<not> isContentTypeAllowed None"
  by (simp add: isContentTypeAllowed_def)

lemma sample_head: "HeadObject (sampleS3 out) input = Inr out"
  by (simp add: sampleS3_def)

lemma sample_object_strings:
  "Get_string sampleObjectData ''bucket'' = ''b''"
  "Get_string sampleObjectData ''key'' = ''k''"
  "Get_string sampleObjectData ''version_id'' = []"
  "Get_string sampleObjectData ''storage_class'' = []"
  by (simp_all add: Get_string_def sampleObjectData_def)

lemma sample_png: "\<not> isContentTypeAllowed (ho_ContentType sampleHead)"
  by (simp add: sampleHead_def isContentTypeAllowed_Some)

text \<open>
  Claim C2 (the code's behaviour). The allow-list admits exactly the eight exact MIME
  types and the strings that start with \<^verbatim>\<open>text/\<close> followed by at least one character,
  the first of which is not a newline (the pattern's dot does not match one); no content
  type at all is not admitted. The read sends \<^verbatim>\<open>GetObject\<close> only for an admitted content
  type; for any other it sends none and leaves the \<^verbatim>\<open>body\<close> attribute as it was.
\<close>

theorem C2_content_type_allowed:
  "(isContentTypeAllowed ct \<longleftrightarrow>
      (\<exists>s. ct = Some s \<and>
         (s = ''application/atom+xml'' \<or> s = ''application/json''
          \<or> s = ''application/ld+json'' \<or> s = ''application/x-csh''
          \<or> s = ''application/x-httpd-php'' \<or> s = ''application/x-sh''
          \<or> s = ''application/xhtml+xml'' \<or> s = ''application/xml''
          \<or> (\<exists>c cs. s = ''text/'' @ c # cs \<and> c \<noteq> CHR 0x0A))))
   \<and> (HeadObject conn (headObjectInput d) = Inr out
        \<and> dataSourceObjectRead conn hp n d = (diags, d', sent)
        \<longrightarrow> (sent \<noteq> [] \<longrightarrow> isContentTypeAllowed (ho_ContentType out))
           \<and> (\<not> isContentTypeAllowed (ho_ContentType out)
                \<longrightarrow> sent = [] \<and> rdAttrs d' ''body'' = rdAttrs d ''body''))"
proof -
  have a: "isContentTypeAllowed ct \<longleftrightarrow>
      (\<exists>s. ct = Some s \<and>
         (s = ''application/atom+xml'' \<or> s = ''application/json''
          \<or> s = ''application/ld+json'' \<or> s = ''application/x-csh''
          \<or> s = ''application/x-httpd-php'' \<or> s = ''application/x-sh''
          \<or> s = ''application/xhtml+xml'' \<or> s = ''application/xml''
          \<or> (\<exists>c cs. s = ''text/'' @ c # cs \<and> c \<noteq> CHR 0x0A)))"
  proof (cases ct)
    case None
    then show ?thesis by (simp add: isContentTypeAllowed_None)
  next
    case (Some s)
    then show ?thesis by (simp only: isContentTypeAllowed_Some option.inject ex_simps simp_thms)
  qed
  from a object_read_body_gate[of conn d out hp n diags d' sent] show ?thesis by blast
qed

theorem C2_content_type_allowed_witness:
  "isContentTypeAllowed (Some ''text/plain'')
   \<and> isContentTypeAllowed (Some ''application/json'')
   \<and> \<not> isContentTypeAllowed (Some ''image/png'')
   \<and> snd (snd (dataSourceObjectRead (sampleS3 sampleHead) sampleHelpers 2 sampleObjectData)) = []
   \<and> rdAttrs (fst (snd (dataSourceObjectRead (sampleS3 sampleHead) sampleHelpers 2
                           sampleObjectData))) ''body'' = None"
proof -
  have 1: "isContentTypeAllowed (Some ''text/plain'')"
    using C2_content_type_allowed[where ct = "Some ''text/plain''", THEN conjunct1] by simp
  have 2: "isContentTypeAllowed (Some ''application/json'')"
    using C2_content_type_allowed[where ct = "Some ''application/json''", THEN conjunct1] by simp
  have 3: "\<not> isContentTypeAllowed (Some ''image/png'')"
    using C2_content_type_allowed[where ct = "Some ''image/png''", THEN conjunct1] by simp
  obtain diags d' sent
    where r: "dataSourceObjectRead (sampleS3 sampleHead) sampleHelpers 2 sampleObjectData
                = (diags, d', sent)"
    by (cases "dataSourceObjectRead (sampleS3 sampleHead) sampleHelpers 2 sampleObjectData") auto
  have b: "rdAttrs sampleObjectData ''body'' = None"
    by (simp add: sampleObjectData_def)
  have 4: "sent = [] \<and> rdAttrs d' ''body'' = None"
    using C2_content_type_allowed[where conn = "sampleS3 sampleHead" and d = sampleObjectData
        and out = sampleHead and hp = sampleHelpers and n = 2 and diags = diags and d' = d'
        and sent = sent, THEN conjunct2] r sample_head[of sampleHead] sample_png b
    by simp
  from 1 2 3 4 r show ?thesis by simp
qed

theorem C2_counterexample:
  "documentedContentType (''text/'' @ [CHR 0x0A])
   \<and> \<not> isContentTypeAllowed (Some (''text/'' @ [CHR 0x0A]))"
  by (simp add: documentedContentType_def isContentTypeAllowed_Some)

section \<open>Identifier, delete marker, storage class\<close>

lemma sample_read:
  assumes "\<not> aws_BoolValue (ho_DeleteMarker out)" "\<not> isContentTypeAllowed (ho_ContentType out)"
  shows "dataSourceObjectRead (sampleS3 out) sampleHelpers n sampleObjectData =
     ([],
      snd (Set_attr (setObjectAttributes sampleHelpers (SetId sampleObjectData ''b/k'') out)
             ''tags'' (TStringMap (tagsToMap sampleHelpers (Tags fmempty)))),
      [])"
  using object_read_plain[of "sampleS3 out" sampleObjectData out n "Tags fmempty" sampleHelpers,
      OF sample_head assms]
  by (simp add: sample_object_strings sample_object_tags)

text \<open>
  Claim C6 (the code's behaviour). After a create that reports no diagnostic, the
  Workforce's identifier is the configured \<^verbatim>\<open>workforce_name\<close>, with one exception: when
  the resource is not marked new and the read that follows does not find the workforce,
  that read has cleared the identifier. When every call to the service succeeds, create
  reports no diagnostic and the identifier is the name. After a read of the S3 object that
  reports no diagnostic, and already once \<^verbatim>\<open>HeadObject\<close> has answered with an object that
  is not a delete marker, the identifier is bucket, "/", key, and, when a \<^verbatim>\<open>version_id\<close>
  is configured, "@" and the version.
\<close>

theorem C6_resource_identifier:
  "(resourceWorkforceCreate conn fx d = Inr ([], d', sent)
      \<longrightarrow> rdId d' =
           (if \<not> rdIsNew d
               \<and> (\<exists>e. FindWorkforceByName conn (Get_string d ''workforce_name'') = Inl e
                        \<and> NotFound (Some e))
            then [] else Get_string d ''workforce_name''))
   \<and> ((if Get_list d ''cognito_config'' \<noteq> []
         then expandWorkforceCognitoConfig (Get_list d ''cognito_config'') else Inr None)
        = Inr cognito
       \<and> (if Get_list d ''oidc_config'' \<noteq> []
           then expandWorkforceOIDCConfig (Get_list d ''oidc_config'') else Inr None) = Inr oidc
       \<and> (if Get_list d ''source_ip_config'' \<noteq> []
           then expandWorkforceSourceIPConfig fx (Get_list d ''source_ip_config'') else Inr None)
          = Inr sourceIp
       \<and> (if Get_list d ''workforce_vpc_config'' \<noteq> []
           then expandWorkforceVPCConfig fx (Get_list d ''workforce_vpc_config'') else Inr None)
          = Inr vpc
       \<and> CreateWorkforce conn
            \<lparr> cwi_WorkforceName = aws_String (Get_string d ''workforce_name''),
              cwi_CognitoConfig = cognito, cwi_OidcConfig = oidc,
              cwi_SourceIpConfig = sourceIp, cwi_WorkforceVpcConfig = vpc \<rparr> = None
       \<and> WaitWorkforceActive conn (Get_string d ''workforce_name'') = None
       \<and> FindWorkforceByName conn (Get_string d ''workforce_name'') = Inr w
       \<longrightarrow> (\<exists>dd reqs. resourceWorkforceCreate conn fx d = Inr ([], dd, reqs)
                     \<and> rdId dd = Get_string d ''workforce_name''))
   \<and> (dataSourceObjectRead objConn hp n od = ([], od', gets)
      \<longrightarrow> rdId od' =
           (if Get_string od ''version_id'' = []
            then Get_string od ''bucket'' @ ''/'' @ Get_string od ''key''
            else Get_string od ''bucket'' @ ''/'' @ Get_string od ''key'' @ ''@''
                   @ Get_string od ''version_id''))
   \<and> (HeadObject objConn (headObjectInput od) = Inr out
       \<and> \<not> aws_BoolValue (ho_DeleteMarker out)
      \<longrightarrow> rdId (fst (snd (dataSourceObjectRead objConn hp n od))) =
           (if Get_string od ''version_id'' = []
            then Get_string od ''bucket'' @ ''/'' @ Get_string od ''key''
            else Get_string od ''bucket'' @ ''/'' @ Get_string od ''key'' @ ''@''
                   @ Get_string od ''version_id''))"
proof -
  let ?name = "Get_string d ''workforce_name''"
  have 1: "resourceWorkforceCreate conn fx d = Inr ([], d', sent)
      \<longrightarrow> rdId d' =
           (if \<not> rdIsNew d
               \<and> (\<exists>e. FindWorkforceByName conn ?name = Inl e \<and> NotFound (Some e))
            then [] else ?name)"
    using create_id_exact[of conn fx d d' sent] by blast
  have 2: "\<exists>dd reqs. resourceWorkforceCreate conn fx d = Inr ([], dd, reqs) \<and> rdId dd = ?name"
    if h: "(if Get_list d ''cognito_config'' \<noteq> []
         then expandWorkforceCognitoConfig (Get_list d ''cognito_config'') else Inr None)
        = Inr cognito
       \<and> (if Get_list d ''oidc_config'' \<noteq> []
           then expandWorkforceOIDCConfig (Get_list d ''oidc_config'') else Inr None) = Inr oidc
       \<and> (if Get_list d ''source_ip_config'' \<noteq> []
           then expandWorkforceSourceIPConfig fx (Get_list d ''source_ip_config'') else Inr None)
          = Inr sourceIp
       \<and> (if Get_list d ''workforce_vpc_config'' \<noteq> []
           then expandWorkforceVPCConfig fx (Get_list d ''workforce_vpc_config'') else Inr None)
          = Inr vpc
       \<and> CreateWorkforce conn
            \<lparr> cwi_WorkforceName = aws_String ?name,
              cwi_CognitoConfig = cognito, cwi_OidcConfig = oidc,
              cwi_SourceIpConfig = sourceIp, cwi_WorkforceVpcConfig = vpc \<rparr> = None
       \<and> WaitWorkforceActive conn ?name = None
       \<and> FindWorkforceByName conn ?name = Inr w"
  proof -
    from h have c: "resourceWorkforceCreate conn fx d =
       Inr ([], snd (resourceWorkforceRead conn fx (SetId d ?name)),
            [CreateWorkforceRequest
               \<lparr> cwi_WorkforceName = aws_String ?name,
                 cwi_CognitoConfig = cognito, cwi_OidcConfig = oidc,
                 cwi_SourceIpConfig = sourceIp, cwi_WorkforceVpcConfig = vpc \<rparr>])"
      by (intro create_ok) (elim conjE, assumption)+
    have i: "rdId (SetId d ?name) = ?name" by (simp add: SetId_def)
    from h have "FindWorkforceByName conn (rdId (SetId d ?name)) = Inr w"
      by (simp add: i)
    from workforce_read_found_id[OF this, of fx]
    have "rdId (snd (resourceWorkforceRead conn fx (SetId d ?name))) = ?name"
      by (simp add: i)
    with c show ?thesis by blast
  qed
  have 3: "dataSourceObjectRead objConn hp n od = ([], od', gets)
      \<longrightarrow> rdId od' =
           (if Get_string od ''version_id'' = []
            then Get_string od ''bucket'' @ ''/'' @ Get_string od ''key''
            else Get_string od ''bucket'' @ ''/'' @ Get_string od ''key'' @ ''@''
                   @ Get_string od ''version_id'')"
    using object_read_id[of objConn hp n od od' gets] by blast
  have 4: "HeadObject objConn (headObjectInput od) = Inr out
       \<and> \<not> aws_BoolValue (ho_DeleteMarker out)
      \<longrightarrow> rdId (fst (snd (dataSourceObjectRead objConn hp n od))) =
           (if Get_string od ''version_id'' = []
            then Get_string od ''bucket'' @ ''/'' @ Get_string od ''key''
            else Get_string od ''bucket'' @ ''/'' @ Get_string od ''key'' @ ''@''
                   @ Get_string od ''version_id'')"
  proof (intro impI, elim conjE)
    assume a: "HeadObject objConn (headObjectInput od) = Inr out"
      "\<not> aws_BoolValue (ho_DeleteMarker out)"
    obtain x y z where r: "dataSourceObjectRead objConn hp n od = (x, y, z)"
      by (cases "dataSourceObjectRead objConn hp n od") auto
    from object_read_sets_id[OF a r] r
    show "rdId (fst (snd (dataSourceObjectRead objConn hp n od))) =
           (if Get_string od ''version_id'' = []
            then Get_string od ''bucket'' @ ''/'' @ Get_string od ''key''
            else Get_string od ''bucket'' @ ''/'' @ Get_string od ''key'' @ ''@''
                   @ Get_string od ''version_id'')"
      by simp
  qed
  from 1 2 3 4 show ?thesis by (intro conjI impI) blast+
qed

lemma sample_new_data:
  "Get_string sampleNewWorkforceData ''workforce_name'' = ''wf''"
  "Get_list sampleNewWorkforceData ''cognito_config'' =
     [TMap [''client_id'' \<mapsto> TString ''client'', ''user_pool'' \<mapsto> TString ''pool'']]"
  "Get_list sampleNewWorkforceData ''oidc_config'' = []"
  "Get_list sampleNewWorkforceData ''source_ip_config'' = []"
  "Get_list sampleNewWorkforceData ''workforce_vpc_config'' = []"
  "rdId sampleNewWorkforceData = []"
  by (simp_all add: Get_string_def Get_list_def sampleNewWorkforceData_def sampleWorkforceData_def)

lemma sample_old_data:
  "Get_string sampleOldWorkforceData ''workforce_name'' = ''wf''"
  "Get_list sampleOldWorkforceData ''cognito_config'' =
     [TMap [''client_id'' \<mapsto> TString ''client'', ''user_pool'' \<mapsto> TString ''pool'']]"
  "Get_list sampleOldWorkforceData ''oidc_config'' = []"
  "Get_list sampleOldWorkforceData ''source_ip_config'' = []"
  "Get_list sampleOldWorkforceData ''workforce_vpc_config'' = []"
  "\<not> rdIsNew sampleOldWorkforceData"
  by (simp_all add: Get_string_def Get_list_def sampleOldWorkforceData_def sampleWorkforceData_def)

lemma sample_versioned_strings:
  "Get_string sampleVersionedObjectData ''bucket'' = ''b''"
  "Get_string sampleVersionedObjectData ''key'' = ''k''"
  "Get_string sampleVersionedObjectData ''version_id'' = ''v1''"
  by (simp_all add: Get_string_def sampleVersionedObjectData_def)

theorem C6_resource_identifier_witness:
  "rdId sampleNewWorkforceData = []
   \<and> (\<exists>dd reqs. resourceWorkforceCreate sampleSageMaker flexCopy sampleNewWorkforceData
                   = Inr ([], dd, reqs) \<and> rdId dd = ''wf'')
   \<and> rdId sampleObjectData = []
   \<and> rdId (fst (snd (dataSourceObjectRead (sampleS3 sampleHead) sampleHelpers 2
                        sampleObjectData))) = ''b/k''
   \<and> rdId (fst (snd (dataSourceObjectRead (sampleS3 sampleHead) sampleHelpers 2
                        sampleVersionedObjectData))) = ''b/k@v1''"
proof -
  have m: "\<not> aws_BoolValue (ho_DeleteMarker sampleHead)"
    by (simp add: sampleHead_def aws_BoolValue_def)
  have 1: "\<exists>dd reqs. resourceWorkforceCreate sampleSageMaker flexCopy sampleNewWorkforceData
                   = Inr ([], dd, reqs) \<and> rdId dd = ''wf''"
    using C6_resource_identifier[where d = sampleNewWorkforceData and conn = sampleSageMaker
        and fx = flexCopy and w = sampleWorkforce
        and cognito = "Some \<lparr> cog_ClientId = Some ''client'', cog_UserPool = Some ''pool'' \<rparr>"
        and oidc = None and sourceIp = None and vpc = None,
        THEN conjunct2, THEN conjunct1]
    by (simp add: sample_new_data sample_cognito sample_service)
  have 2: "rdId (fst (snd (dataSourceObjectRead (sampleS3 sampleHead) sampleHelpers 2
                        sampleObjectData))) = ''b/k''"
    using C6_resource_identifier[where objConn = "sampleS3 sampleHead" and hp = sampleHelpers
        and n = 2 and od = sampleObjectData and out = sampleHead,
        THEN conjunct2, THEN conjunct2, THEN conjunct2] m
    by (simp add: sample_head sample_object_strings)
  have 3: "rdId (fst (snd (dataSourceObjectRead (sampleS3 sampleHead) sampleHelpers 2
                        sampleVersionedObjectData))) = ''b/k@v1''"
    using C6_resource_identifier[where objConn = "sampleS3 sampleHead" and hp = sampleHelpers
        and n = 2 and od = sampleVersionedObjectData and out = sampleHead,
        THEN conjunct2, THEN conjunct2, THEN conjunct2] m
    by (simp add: sample_head sample_versioned_strings)
  have 0: "rdId sampleNewWorkforceData = []" "rdId sampleObjectData = []"
    by (simp_all add: sample_new_data sampleObjectData_def)
  from 0 1 2 3 show ?thesis by (intro conjI)
qed

text \<open>
  A resource that is not marked new, and a service that creates the workforce but whose
  finder does not find it: create reports no diagnostic, and the identifier is empty, not
  the \<^verbatim>\<open>workforce_name\<close>.
\<close>

theorem C6_counterexample:
  "Get_string sampleOldWorkforceData ''workforce_name'' = ''wf''
   \<and> (\<exists>dd reqs. resourceWorkforceCreate sampleSageMakerGone flexCopy sampleOldWorkforceData
                   = Inr ([], dd, reqs) \<and> rdId dd = [])"
proof -
  have s: "CreateWorkforce sampleSageMakerGone input = None"
    "WaitWorkforceActive sampleSageMakerGone name = None"
    "FindWorkforceByName sampleSageMakerGone name = Inl (NotFoundError ''no workforce'')"
    for input name
    by (simp_all add: sampleSageMakerGone_def sampleSageMaker_def)
  have r: "resourceWorkforceRead sampleSageMakerGone flexCopy (SetId sampleOldWorkforceData ''wf'')
             = ([], SetId (SetId sampleOldWorkforceData ''wf'') [])"
    unfolding resourceWorkforceRead_def Let_def
    by (simp add: s NotFound_def SetId_def sampleOldWorkforceData_def)
  have c: "resourceWorkforceCreate sampleSageMakerGone flexCopy sampleOldWorkforceData
             = Inr ([], SetId (SetId sampleOldWorkforceData ''wf'') [],
                    [CreateWorkforceRequest
                       \<lparr> cwi_WorkforceName = Some ''wf'',
                         cwi_CognitoConfig =
                           Some \<lparr> cog_ClientId = Some ''client'', cog_UserPool = Some ''pool'' \<rparr>,
                         cwi_OidcConfig = None, cwi_SourceIpConfig = None,
                         cwi_WorkforceVpcConfig = None \<rparr>])"
    unfolding resourceWorkforceCreate_def Let_def GetOk_list_def prod.case
    by (simp add: sample_old_data sample_cognito s r bindP_def aws_String_def)
  have i: "rdId (SetId (SetId sampleOldWorkforceData ''wf'') []) = []"
    by (simp add: SetId_def)
  from c i sample_old_data(1) show ?thesis by blast
qed

text \<open>
  Claim C8. When \<^verbatim>\<open>HeadObject\<close> succeeds with a response whose \<^verbatim>\<open>DeleteMarker\<close> is
  true, the read returns one error diagnostic saying the object has been deleted, leaves
  the resource data (identifier and attributes) untouched, and fetches no body.
\<close>

theorem C8_delete_marker_is_error:
  assumes "HeadObject conn (headObjectInput d) = Inr out" "ho_DeleteMarker out = Some True"
  shows "dataSourceObjectRead conn hp n d =
    ([Diagnostic SevError
        (''Requested S3 object ''
           @ Sprintf_q hp (Get_string d ''bucket'' @ Get_string d ''key'')
           @ (if Get_string d ''version_id'' = [] then []
              else '' of version '' @ Sprintf_q hp (Get_string d ''version_id''))
           @ '' has been deleted'')],
     d, [])"
  using object_read_deleted[OF assms] .

theorem C8_delete_marker_is_error_witness:
  "dataSourceObjectRead (sampleS3 (sampleHead\<lparr>ho_DeleteMarker := Some True\<rparr>)) sampleHelpers 2
     sampleObjectData
   = ([Diagnostic SevError (''Requested S3 object '' @ [CHR 0x22] @ ''bk'' @ [CHR 0x22]
                              @ '' has been deleted'')],
      sampleObjectData, [])"
proof -
  have h: "HeadObject (sampleS3 (sampleHead\<lparr>ho_DeleteMarker := Some True\<rparr>))
             (headObjectInput sampleObjectData) = Inr (sampleHead\<lparr>ho_DeleteMarker := Some True\<rparr>)"
    by (rule sample_head)
  have m: "ho_DeleteMarker (sampleHead\<lparr>ho_DeleteMarker := Some True\<rparr>) = Some True"
    by simp
  show ?thesis
    using C8_delete_marker_is_error[OF h m, of sampleHelpers 2]
    by (simp add: sample_object_strings sampleHelpers_def)
qed

text \<open>
  Claim C9 (the code's behaviour). For every \<^verbatim>\<open>HeadObject\<close> response whose
  \<^verbatim>\<open>DeleteMarker\<close> is not true, the read stores as \<^verbatim>\<open>storage_class\<close> the literal
  \<^verbatim>\<open>STANDARD\<close> when the response's \<^verbatim>\<open>StorageClass\<close> is nil and the response's value
  otherwise; the stored value is therefore not empty unless the response holds an empty
  storage class.
\<close>

theorem C9_storage_class_default:
  assumes "HeadObject conn (headObjectInput d) = Inr out"
    "\<not> aws_BoolValue (ho_DeleteMarker out)"
  shows "rdAttrs (fst (snd (dataSourceObjectRead conn hp n d))) ''storage_class'' =
           Some (TString (case ho_StorageClass out of None \<Rightarrow> ''STANDARD'' | Some c \<Rightarrow> c))
       \<and> (ho_StorageClass out \<noteq> Some []
            \<longrightarrow> Get_string (fst (snd (dataSourceObjectRead conn hp n d))) ''storage_class'' \<noteq> [])"
proof -
  obtain diags d' sent where r: "dataSourceObjectRead conn hp n d = (diags, d', sent)"
    by (cases "dataSourceObjectRead conn hp n d") auto
  from object_read_storage_class[OF assms r]
  have s: "rdAttrs d' ''storage_class'' =
     Some (TString (case ho_StorageClass out of None \<Rightarrow> ''STANDARD'' | Some c \<Rightarrow> c))" .
  then have "ho_StorageClass out \<noteq> Some [] \<Longrightarrow> Get_string d' ''storage_class'' \<noteq> []"
    by (cases "ho_StorageClass out") (simp_all add: Get_string_def)
  with s r show ?thesis by simp
qed

theorem C9_storage_class_default_witness:
  "rdAttrs (fst (snd (dataSourceObjectRead (sampleS3 sampleHead) sampleHelpers 2 sampleObjectData)))
     ''storage_class'' = Some (TString ''STANDARD'')
   \<and> Get_string (fst (snd (dataSourceObjectRead (sampleS3 sampleHead) sampleHelpers 2
                             sampleObjectData))) ''storage_class'' \<noteq> []"
proof -
  have m: "\<not> aws_BoolValue (ho_DeleteMarker sampleHead)"
    by (simp add: sampleHead_def aws_BoolValue_def)
  have c: "ho_StorageClass sampleHead = None"
    by (simp add: sampleHead_def)
  show ?thesis
    using C9_storage_class_default[OF sample_head m, where d = sampleObjectData
        and hp = sampleHelpers and n = 2] c
    by simp
qed

theorem C9_counterexample:
  "rdAttrs (fst (snd (dataSourceObjectRead (sampleS3 (sampleHead\<lparr>ho_DeleteMarker := Some True\<rparr>))
                        sampleHelpers 2 sampleObjectData))) ''storage_class'' = None
   \<and> fst (dataSourceObjectRead (sampleS3 (sampleHead\<lparr>ho_StorageClass := Some []\<rparr>))
            sampleHelpers 2 sampleObjectData) = []
   \<and> Get_string (fst (snd (dataSourceObjectRead (sampleS3 (sampleHead\<lparr>ho_StorageClass := Some []\<rparr>))
                             sampleHelpers 2 sampleObjectData))) ''storage_class'' = []"
proof -
  have h: "HeadObject (sampleS3 (sampleHead\<lparr>ho_DeleteMarker := Some True\<rparr>))
             (headObjectInput sampleObjectData) = Inr (sampleHead\<lparr>ho_DeleteMarker := Some True\<rparr>)"
    by (rule sample_head)
  have 1: "rdAttrs (fst (snd (dataSourceObjectRead
                                (sampleS3 (sampleHead\<lparr>ho_DeleteMarker := Some True\<rparr>))
                                sampleHelpers 2 sampleObjectData))) ''storage_class'' = None"
  proof -
    have "dataSourceObjectRead (sampleS3 (sampleHead\<lparr>ho_DeleteMarker := Some True\<rparr>))
            sampleHelpers 2 sampleObjectData
          = (fst (dataSourceObjectRead (sampleS3 (sampleHead\<lparr>ho_DeleteMarker := Some True\<rparr>))
                    sampleHelpers 2 sampleObjectData),
             sampleObjectData, [])"
      by (simp add: object_read_deleted[OF h])
    then have "fst (snd (dataSourceObjectRead
                           (sampleS3 (sampleHead\<lparr>ho_DeleteMarker := Some True\<rparr>))
                           sampleHelpers 2 sampleObjectData)) = sampleObjectData"
      by (metis fst_conv snd_conv)
    then show ?thesis by (simp add: sampleObjectData_def)
  qed
  have m: "\<not> aws_BoolValue (ho_DeleteMarker (sampleHead\<lparr>ho_StorageClass := Some []\<rparr>))"
    by (simp add: sampleHead_def aws_BoolValue_def)
  have p: "\<not> isContentTypeAllowed (ho_ContentType (sampleHead\<lparr>ho_StorageClass := Some []\<rparr>))"
    using sample_png by simp
  note r = sample_read[OF m p, of 2]
  have 2: "fst (dataSourceObjectRead (sampleS3 (sampleHead\<lparr>ho_StorageClass := Some []\<rparr>))
                  sampleHelpers 2 sampleObjectData) = []"
    by (simp add: r)
  have 3: "Get_string (fst (snd (dataSourceObjectRead
                                   (sampleS3 (sampleHead\<lparr>ho_StorageClass := Some []\<rparr>))
                                   sampleHelpers 2 sampleObjectData))) ''storage_class'' = []"
    by (simp add: r Get_string_def Set_attr_attrs setObjectAttributes_storage_class)
  from 1 2 3 show ?thesis by blast
qed

section \<open>Workforce: expand followed by flatten\<close>

lemma cognito_roundtrip:
  "map_sum id flattenWorkforceCognitoConfig
     (expandWorkforceCognitoConfig
        [TMap [''client_id'' \<mapsto> TString a, ''user_pool'' \<mapsto> TString b]])
   = Inr [[''client_id'' \<mapsto> TString a, ''user_pool'' \<mapsto> TString b]]"
  by (simp add: expandWorkforceCognitoConfig_def flattenWorkforceCognitoConfig_def bindP_def
      assertMap_def assertString_def StringValue_String)

lemma source_ip_roundtrip:
  assumes "FlattenStringSet fx (ExpandStringSet fx cidrs) = cidrs"
  shows "map_sum id (flattenWorkforceSourceIPConfig fx)
     (expandWorkforceSourceIPConfig fx [TMap [''cidrs'' \<mapsto> TSet cidrs]])
   = Inr [[''cidrs'' \<mapsto> TSet cidrs]]"
  using assms
  by (simp add: expandWorkforceSourceIPConfig_def flattenWorkforceSourceIPConfig_def bindP_def
      assertMap_def assertSet_def)

lemma oidc_roundtrip:
  "map_sum id (\<lambda>c. flattenWorkforceOIDCConfig (map_option oidcResponseOf c) secret)
     (expandWorkforceOIDCConfig
        [TMap [''authorization_endpoint'' \<mapsto> TString a, ''client_id'' \<mapsto> TString ci,
               ''client_secret'' \<mapsto> TString cs, ''issuer'' \<mapsto> TString i,
               ''jwks_uri'' \<mapsto> TString j, ''logout_endpoint'' \<mapsto> TString l,
               ''token_endpoint'' \<mapsto> TString t, ''user_info_endpoint'' \<mapsto> TString u]])
   = Inr [[''authorization_endpoint'' \<mapsto> TString a, ''client_id'' \<mapsto> TString ci,
           ''client_secret'' \<mapsto> TString secret, ''issuer'' \<mapsto> TString i,
           ''jwks_uri'' \<mapsto> TString j, ''logout_endpoint'' \<mapsto> TString l,
           ''token_endpoint'' \<mapsto> TString t, ''user_info_endpoint'' \<mapsto> TString u]]"
  by (simp add: expandWorkforceOIDCConfig_def flattenWorkforceOIDCConfig_def bindP_def
      assertMap_def assertString_def StringValue_String oidcResponseOf_def)

lemma vpc_roundtrip:
  assumes "FlattenStringSet fx (ExpandStringSet fx sgs) = sgs"
      "FlattenStringSet fx (ExpandStringSet fx subnets) = subnets"
  shows "map_sum id (\<lambda>c. flattenWorkforceVPCConfig fx (map_option (vpcResponseOf endpoint) c))
     (expandWorkforceVPCConfig fx
        [TMap [''security_group_ids'' \<mapsto> TSet sgs, ''subnets'' \<mapsto> TSet subnets,
               ''vpc_endpoint_id'' \<mapsto> TString prior, ''vpc_id'' \<mapsto> TString v]])
   = Inr [[''security_group_ids'' \<mapsto> TSet sgs, ''subnets'' \<mapsto> TSet subnets,
           ''vpc_endpoint_id'' \<mapsto> TString (aws_StringValue endpoint),
           ''vpc_id'' \<mapsto> TString v]]"
  using assms
  by (simp add: expandWorkforceVPCConfig_def flattenWorkforceVPCConfig_def bindP_def
      assertMap_def assertSet_def assertString_def StringValue_String vpcResponseOf_def)

text \<open>The copying helpers give back every set.\<close>

lemma map_filter_Some: "List.map_filter (\<lambda>p. p) (map Some xs) = xs"
  by (induction xs) (simp_all add: List.map_filter_simps)

lemma flexCopy_roundtrip:
  "FlattenStringSet flexCopy (ExpandStringSet flexCopy s) = s"
  by (simp add: flexCopy_def map_filter_Some)

text \<open>
  Claim C1 (the code's behaviour). For every valid block, flattening what the service
  echoes of the expanded request gives the block back, field for field, with two
  exceptions: the OIDC \<^verbatim>\<open>client_secret\<close> is the value passed to the flatten function as
  its second argument, and the VPC block's computed \<^verbatim>\<open>vpc_endpoint_id\<close>, which the
  expand function does not send, is the endpoint the response reports.
\<close>

theorem C1_expand_flatten_roundtrip:
  "map_sum id flattenWorkforceCognitoConfig
      (expandWorkforceCognitoConfig
         [TMap [''client_id'' \<mapsto> TString clientId, ''user_pool'' \<mapsto> TString userPool]])
    = Inr [[''client_id'' \<mapsto> TString clientId, ''user_pool'' \<mapsto> TString userPool]]
  \<and> map_sum id (\<lambda>c. flattenWorkforceOIDCConfig (map_option oidcResponseOf c) secret)
      (expandWorkforceOIDCConfig
         [TMap [''authorization_endpoint'' \<mapsto> TString a, ''client_id'' \<mapsto> TString ci,
                ''client_secret'' \<mapsto> TString cs, ''issuer'' \<mapsto> TString i,
                ''jwks_uri'' \<mapsto> TString j, ''logout_endpoint'' \<mapsto> TString l,
                ''token_endpoint'' \<mapsto> TString t, ''user_info_endpoint'' \<mapsto> TString u]])
    = Inr [[''authorization_endpoint'' \<mapsto> TString a, ''client_id'' \<mapsto> TString ci,
            ''client_secret'' \<mapsto> TString secret, ''issuer'' \<mapsto> TString i,
            ''jwks_uri'' \<mapsto> TString j, ''logout_endpoint'' \<mapsto> TString l,
            ''token_endpoint'' \<mapsto> TString t, ''user_info_endpoint'' \<mapsto> TString u]]
  \<and> map_sum id (flattenWorkforceSourceIPConfig flexCopy)
      (expandWorkforceSourceIPConfig flexCopy [TMap [''cidrs'' \<mapsto> TSet cidrs]])
    = Inr [[''cidrs'' \<mapsto> TSet cidrs]]
  \<and> map_sum id (\<lambda>c. flattenWorkforceVPCConfig flexCopy
                        (map_option (vpcResponseOf endpoint) c))
      (expandWorkforceVPCConfig flexCopy
         [TMap [''security_group_ids'' \<mapsto> TSet sgs, ''subnets'' \<mapsto> TSet subnets,
                ''vpc_endpoint_id'' \<mapsto> TString priorEndpoint, ''vpc_id'' \<mapsto> TString v]])
    = Inr [[''security_group_ids'' \<mapsto> TSet sgs, ''subnets'' \<mapsto> TSet subnets,
            ''vpc_endpoint_id'' \<mapsto> TString (aws_StringValue endpoint),
            ''vpc_id'' \<mapsto> TString v]]"
  using cognito_roundtrip[of clientId userPool] oidc_roundtrip[of secret a ci cs i j l t u]
    source_ip_roundtrip[where fx = flexCopy and cidrs = cidrs, OF flexCopy_roundtrip]
    vpc_roundtrip[where fx = flexCopy and sgs = sgs and subnets = subnets
      and endpoint = endpoint and prior = priorEndpoint and v = v,
      OF flexCopy_roundtrip flexCopy_roundtrip]
  by (intro conjI)

theorem C1_expand_flatten_roundtrip_witness:
  "map_sum id flattenWorkforceCognitoConfig
      (expandWorkforceCognitoConfig
         [TMap [''client_id'' \<mapsto> TString ''client'', ''user_pool'' \<mapsto> TString ''pool'']])
    = Inr [[''client_id'' \<mapsto> TString ''client'', ''user_pool'' \<mapsto> TString ''pool'']]
  \<and> map_sum id (\<lambda>c. flattenWorkforceOIDCConfig (map_option oidcResponseOf c) ''s3cret'')
      (expandWorkforceOIDCConfig
         [TMap [''authorization_endpoint'' \<mapsto> TString ''https://idp/auth'',
                ''client_id'' \<mapsto> TString ''client'',
                ''client_secret'' \<mapsto> TString ''s3cret'',
                ''issuer'' \<mapsto> TString ''https://idp'',
                ''jwks_uri'' \<mapsto> TString ''https://idp/jwks'',
                ''logout_endpoint'' \<mapsto> TString ''https://idp/logout'',
                ''token_endpoint'' \<mapsto> TString ''https://idp/token'',
                ''user_info_endpoint'' \<mapsto> TString ''https://idp/user'']])
    = Inr [[''authorization_endpoint'' \<mapsto> TString ''https://idp/auth'',
            ''client_id'' \<mapsto> TString ''client'',
            ''client_secret'' \<mapsto> TString ''s3cret'',
            ''issuer'' \<mapsto> TString ''https://idp'',
            ''jwks_uri'' \<mapsto> TString ''https://idp/jwks'',
            ''logout_endpoint'' \<mapsto> TString ''https://idp/logout'',
            ''token_endpoint'' \<mapsto> TString ''https://idp/token'',
            ''user_info_endpoint'' \<mapsto> TString ''https://idp/user'']]
  \<and> map_sum id (flattenWorkforceSourceIPConfig flexCopy)
      (expandWorkforceSourceIPConfig flexCopy
         [TMap [''cidrs'' \<mapsto> TSet {|''10.0.0.0/8'', ''192.168.0.0/16''|}]])
    = Inr [[''cidrs'' \<mapsto> TSet {|''10.0.0.0/8'', ''192.168.0.0/16''|}]]
  \<and> map_sum id (\<lambda>c. flattenWorkforceVPCConfig flexCopy
                        (map_option (vpcResponseOf (Some ''vpce-1'')) c))
      (expandWorkforceVPCConfig flexCopy
         [TMap [''security_group_ids'' \<mapsto> TSet {|''sg-1''|},
                ''subnets'' \<mapsto> TSet {|''subnet-1'', ''subnet-2''|},
                ''vpc_endpoint_id'' \<mapsto> TString ''vpce-1'', ''vpc_id'' \<mapsto> TString ''vpc-1'']])
    = Inr [[''security_group_ids'' \<mapsto> TSet {|''sg-1''|},
            ''subnets'' \<mapsto> TSet {|''subnet-1'', ''subnet-2''|},
            ''vpc_endpoint_id'' \<mapsto> TString ''vpce-1'', ''vpc_id'' \<mapsto> TString ''vpc-1'']]"
proof -
  have e: "aws_StringValue (Some ''vpce-1'') = ''vpce-1''"
    by (simp add: aws_StringValue_def)
  show ?thesis
    using C1_expand_flatten_roundtrip[where clientId = "''client''"
        and userPool = "''pool''" and secret = "''s3cret''" and a = "''https://idp/auth''"
        and ci = "''client''" and cs = "''s3cret''" and i = "''https://idp''"
        and j = "''https://idp/jwks''" and l = "''https://idp/logout''"
        and t = "''https://idp/token''" and u = "''https://idp/user''"
        and cidrs = "{|''10.0.0.0/8'', ''192.168.0.0/16''|}"
        and sgs = "{|''sg-1''|}" and subnets = "{|''subnet-1'', ''subnet-2''|}"
        and endpoint = "Some ''vpce-1''" and priorEndpoint = "''vpce-1''" and v = "''vpc-1''"]
    by (simp only: e)
qed

text \<open>
  A VPC block as it is at creation, its computed \<^verbatim>\<open>vpc_endpoint_id\<close> still empty: the
  response reports the endpoint the service has assigned, and the flattened block differs
  from the one that was expanded.
\<close>

theorem C1_counterexample:
  "map_sum id (\<lambda>c. flattenWorkforceVPCConfig flexCopy
                      (map_option (vpcResponseOf (Some ''vpce-1'')) c))
     (expandWorkforceVPCConfig flexCopy
        [TMap [''security_group_ids'' \<mapsto> TSet {||}, ''subnets'' \<mapsto> TSet {||},
               ''vpc_endpoint_id'' \<mapsto> TString [], ''vpc_id'' \<mapsto> TString ''vpc-1'']])
   \<noteq> Inr [[''security_group_ids'' \<mapsto> TSet {||}, ''subnets'' \<mapsto> TSet {||},
            ''vpc_endpoint_id'' \<mapsto> TString [], ''vpc_id'' \<mapsto> TString ''vpc-1'']]"
proof -
  have "[''security_group_ids'' \<mapsto> TSet {||}, ''subnets'' \<mapsto> TSet {||},
         ''vpc_endpoint_id'' \<mapsto> TString ''vpce-1'', ''vpc_id'' \<mapsto> TString ''vpc-1'']
          ''vpc_endpoint_id''
     \<noteq> [''security_group_ids'' \<mapsto> TSet {||}, ''subnets'' \<mapsto> TSet {||},
         ''vpc_endpoint_id'' \<mapsto> TString [], ''vpc_id'' \<mapsto> TString ''vpc-1'']
          ''vpc_endpoint_id''"
    by simp
  then have "[''security_group_ids'' \<mapsto> TSet {||}, ''subnets'' \<mapsto> TSet {||},
              ''vpc_endpoint_id'' \<mapsto> TString ''vpce-1'', ''vpc_id'' \<mapsto> TString ''vpc-1'']
     \<noteq> [''security_group_ids'' \<mapsto> TSet {||}, ''subnets'' \<mapsto> TSet {||},
         ''vpc_endpoint_id'' \<mapsto> TString [], ''vpc_id'' \<mapsto> TString ''vpc-1'']"
    by metis
  then show ?thesis
    using vpc_roundtrip[where fx = flexCopy and sgs = "{||}" and subnets = "{||}"
        and endpoint = "Some ''vpce-1''" and prior = "[]" and v = "''vpc-1''",
        OF flexCopy_roundtrip flexCopy_roundtrip]
    by (simp add: aws_StringValue_def)
qed

end
